theory Spec2Isabelle
  imports Main "HOL-Library.Sublist"
begin

section \<open>Effects: a trace of external actions and Python exceptions\<close>

text \<open>
  The functions of \<^verbatim>\<open>src/warnet/k8s.py\<close> talk to the cluster API, to remote exec
  sessions and to local subprocesses, and they print. A run is modelled as the list of
  external actions it performs, in order, together with its outcome: a returned value
  (\<open>Inr\<close>) or a raised exception (\<open>Inl\<close>). The answers of the outside world are read
  from a \<open>world\<close> record, so that every failure the source can meet is an input.
\<close>

datatype exn =
    SystemExit int      \<comment> \<open>\<^verbatim>\<open>sys.exit(n)\<close>: a BaseException, not caught by \<^verbatim>\<open>except Exception\<close>\<close>
  | Exception string    \<comment> \<open>any subclass of \<^verbatim>\<open>Exception\<close>, with \<^verbatim>\<open>str(e)\<close>\<close>

datatype action =
    RunCommand string     \<comment> \<open>\<^verbatim>\<open>subprocess.run(command, shell=True, ...)\<close>\<close>
  | Popen string          \<comment> \<open>\<^verbatim>\<open>subprocess.Popen(["bash", "-c", command], ...)\<close>\<close>
  | LoadKubeConfig        \<comment> \<open>\<^verbatim>\<open>config.load_kube_config(config_file=KUBECONFIG)\<close>\<close>
  | ReadPod string string \<comment> \<open>\<^verbatim>\<open>read_namespaced_pod(name, namespace)\<close>\<close>
  | ListPods string       \<comment> \<open>\<^verbatim>\<open>list_namespaced_pod(namespace)\<close>\<close>
  | ExecOpen string string "string list" "string option" bool bool
      \<comment> \<open>\<^verbatim>\<open>stream(connect_get_namespaced_pod_exec, pod, namespace, command=..., container=...,
          stdin=..., _preload_content=...)\<close>\<close>
  | WriteStdin string     \<comment> \<open>\<^verbatim>\<open>res.write_stdin(data)\<close>\<close>
  | CloseSession          \<comment> \<open>\<^verbatim>\<open>resp.close()\<close>\<close>
  | WatchOpen string int  \<comment> \<open>\<^verbatim>\<open>w.stream(list_namespaced_pod, namespace=..., timeout_seconds=...)\<close>\<close>
  | WatchStop             \<comment> \<open>\<^verbatim>\<open>w.stop()\<close>\<close>
  | Stdout string         \<comment> \<open>text written to standard output\<close>

type_synonym 'a io = "action list \<times> (exn + 'a)"

definition io_return :: "'a \<Rightarrow> 'a io" where
  "io_return x = ([], Inr x)"

definition io_raise :: "exn \<Rightarrow> 'a io" where
  "io_raise e = ([], Inl e)"

definition act :: "action \<Rightarrow> unit io" where
  "act a = ([a], Inr ())"

definition io_bind :: "'a io \<Rightarrow> ('a \<Rightarrow> 'b io) \<Rightarrow> 'b io" where
  "io_bind m f =
     (case m of
        (t, Inl e) \<Rightarrow> (t, Inl e)
      | (t, Inr x) \<Rightarrow> (case f x of (t', r) \<Rightarrow> (t @ t', r)))"

text \<open>
  \<^verbatim>\<open>try: m  except Exception as e: h(str(e))\<close>. A \<open>SystemExit\<close> passes through the
  handler untouched, as in Python.
\<close>

definition try_except :: "'a io \<Rightarrow> (string \<Rightarrow> 'a io) \<Rightarrow> 'a io" where
  "try_except m h =
     (case m of
        (t, Inl (Exception msg)) \<Rightarrow> (case h msg of (t', r) \<Rightarrow> (t @ t', r))
      | (t, Inl (SystemExit c)) \<Rightarrow> (t, Inl (SystemExit c))
      | (t, Inr x) \<Rightarrow> (t, Inr x))"

definition nl :: string where
  "nl = [CHR 0x0A]"

text \<open>\<^verbatim>\<open>print(s)\<close> writes \<open>s\<close> and a newline.\<close>

definition py_print :: "string \<Rightarrow> unit io" where
  "py_print s = act (Stdout (s @ nl))"

section \<open>The outside world\<close>

text \<open>
  One poll of an open exec session (\<^verbatim>\<open>resp.update(timeout=1)\<close>) either raises a
  transport error or leaves the buffered stdout and stderr text (empty when nothing
  arrived). A session is the finite list of polls it answers before \<^verbatim>\<open>is_open()\<close>
  turns false, or it fails to open.
\<close>

datatype poll = PollRaise string | PollData string string

datatype exec_script =
    OpenFails string
  | Session "string option" "poll list"
      \<comment> \<open>the error, if any, that \<^verbatim>\<open>write_stdin\<close> raises; the polls\<close>

text \<open>
  The pod objects the watch delivers. Only the fields the waits read are kept;
  \<^verbatim>\<open>status.conditions\<close> and \<^verbatim>\<open>status.init_container_statuses\<close> may be
  \<^verbatim>\<open>None\<close>, the cases the source itself guards against.
\<close>

record pod_condition =
  cond_type :: string
  cond_status :: string

datatype container_state = StateRunning | StateWaiting | StateTerminated

record container_status =
  cs_name :: string
  cs_state :: container_state

record pod =
  metadata_name :: string
  status_phase :: string
  status_conditions :: "pod_condition list option"
  status_init_container_statuses :: "container_status list option"

record world =
  subprocess_run :: "string \<Rightarrow> int \<times> string \<times> string"
     \<comment> \<open>return code, stdout, stderr of a shell command\<close>
  popen_lines :: "string \<Rightarrow> string list \<times> int"
     \<comment> \<open>the output lines of a streamed command and its return code\<close>
  load_kube_config :: "string option"
     \<comment> \<open>the error raised by loading the kubeconfig, if any\<close>
  read_namespaced_pod :: "string \<Rightarrow> string \<Rightarrow> string option"
     \<comment> \<open>the error raised by the pod lookup, if any\<close>
  list_namespaced_pod :: "string \<Rightarrow> string + pod list"
     \<comment> \<open>the error raised by the listing, or \<^verbatim>\<open>pods.items\<close>\<close>
  watch_pods :: "string \<Rightarrow> int \<Rightarrow> pod list \<times> string option"
     \<comment> \<open>the events a watch on a namespace delivers within \<^verbatim>\<open>timeout_seconds\<close>, and
         how the stream ends: by the timeout (\<open>None\<close>) or by raising\<close>
  pod_exec :: "string \<Rightarrow> string \<Rightarrow> string list \<Rightarrow> string option \<Rightarrow> exec_script"
  getcwd :: string
     \<comment> \<open>\<^verbatim>\<open>os.getcwd()\<close>\<close>
  pathlib_join :: "string \<Rightarrow> string \<Rightarrow> string"
     \<comment> \<open>\<^verbatim>\<open>str(Path(a) / b)\<close>\<close>
  DEFAULT_NAMESPACE :: string
     \<comment> \<open>a constant of \<^verbatim>\<open>warnet/constants.py\<close>\<close>
  INGRESS_NAMESPACE :: string
     \<comment> \<open>a constant of \<^verbatim>\<open>warnet/constants.py\<close>\<close>

section \<open>\<^verbatim>\<open>process.py\<close>\<close>

definition run_command :: "world \<Rightarrow> string \<Rightarrow> string io" where
  "run_command w command =
     io_bind (act (RunCommand command)) (\<lambda>_.
       case subprocess_run w command of
         (returncode, out, err) \<Rightarrow>
           if returncode \<noteq> 0 then io_raise (Exception err) else io_return out)"

fun print_lines :: "string list \<Rightarrow> unit io" where
  "print_lines [] = io_return ()"
| "print_lines (line # rest) = io_bind (act (Stdout line)) (\<lambda>_. print_lines rest)"

definition stream_command :: "world \<Rightarrow> string \<Rightarrow> bool io" where
  "stream_command w command =
     io_bind (act (Popen command)) (\<lambda>_.
       case popen_lines w command of
         (lines, return_code) \<Rightarrow>
           io_bind (print_lines lines) (\<lambda>_.
             if return_code \<noteq> 0 then io_raise (Exception (concat lines))
             else io_return True))"

section \<open>Client, namespace and exec sessions\<close>

definition get_static_client :: "world \<Rightarrow> unit io" where
  "get_static_client w =
     io_bind (act LoadKubeConfig) (\<lambda>_.
       case load_kube_config w of
         Some msg \<Rightarrow> io_raise (Exception msg)
       | None \<Rightarrow> io_return ())"

text \<open>\<^verbatim>\<open>s.find(sub)\<close>: the lowest index where \<open>sub\<close> occurs in \<open>s\<close>, or \<open>-1\<close>.\<close>

fun str_find_from :: "int \<Rightarrow> string \<Rightarrow> string \<Rightarrow> int" where
  "str_find_from i [] sub = (if sub = [] then i else - 1)"
| "str_find_from i (c # cs) sub =
     (if prefix sub (c # cs) then i else str_find_from (i + 1) cs sub)"

definition str_find :: "string \<Rightarrow> string \<Rightarrow> int" where
  "str_find s sub = str_find_from 0 s sub"

definition kubectl_hint :: string where
  "kubectl_hint =
     ''It looks like kubectl is not installed. Please install it to continue: '' @
     ''https://kubernetes.io/docs/tasks/tools/''"

definition namespace_command :: string where
  "namespace_command =
     ''kubectl config view --minify -o jsonpath='' @ [CHR 0x27] @ ''{..namespace}'' @ [CHR 0x27]"

definition get_default_namespace :: "world \<Rightarrow> string io" where
  "get_default_namespace w =
     (let command = namespace_command in
      io_bind
        (try_except (run_command w command)
           (\<lambda>e. io_bind (py_print e) (\<lambda>_.
                 io_bind (if str_find e ''command not found'' \<noteq> 0
                          then py_print kubectl_hint else io_return ()) (\<lambda>_.
                 io_raise (SystemExit 1)))))
        (\<lambda>kubectl_namespace.
           io_return (if kubectl_namespace \<noteq> [] then kubectl_namespace
                      else DEFAULT_NAMESPACE w)))"

text \<open>\<^verbatim>\<open>namespace if namespace else get_default_namespace()\<close>: \<open>None\<close> and the empty
  string are both falsy.\<close>

definition get_default_namespace_or :: "world \<Rightarrow> string option \<Rightarrow> string io" where
  "get_default_namespace_or w namespace =
     (case namespace of
        Some ns \<Rightarrow> if ns \<noteq> [] then io_return ns else get_default_namespace w
      | None \<Rightarrow> get_default_namespace w)"

text \<open>
  \<^verbatim>\<open>stream(..., _preload_content=False)\<close> returns the open session; with the default
  \<^verbatim>\<open>_preload_content=True\<close> the call itself polls the session until it closes.
\<close>

definition stream_open ::
  "world \<Rightarrow> string \<Rightarrow> string \<Rightarrow> string list \<Rightarrow> string option \<Rightarrow> bool
     \<Rightarrow> (string option \<times> poll list) io" where
  "stream_open w pod_name namespace command container stdin =
     io_bind (act (ExecOpen pod_name namespace command container stdin False)) (\<lambda>_.
       case pod_exec w pod_name namespace command container of
         OpenFails msg \<Rightarrow> io_raise (Exception msg)
       | Session werr polls \<Rightarrow> io_return (werr, polls))"

fun run_forever :: "poll list \<Rightarrow> unit io" where
  "run_forever [] = io_return ()"
| "run_forever (PollRaise msg # rest) = io_raise (Exception msg)"
| "run_forever (PollData out err # rest) = run_forever rest"

definition stream_run ::
  "world \<Rightarrow> string \<Rightarrow> string \<Rightarrow> string list \<Rightarrow> string option \<Rightarrow> bool \<Rightarrow> unit io" where
  "stream_run w pod_name namespace command container stdin =
     io_bind (act (ExecOpen pod_name namespace command container stdin True)) (\<lambda>_.
       case pod_exec w pod_name namespace command container of
         OpenFails msg \<Rightarrow> io_raise (Exception msg)
       | Session werr polls \<Rightarrow> run_forever polls)"

definition write_stdin :: "string option \<times> poll list \<Rightarrow> string \<Rightarrow> unit io" where
  "write_stdin res data =
     io_bind (act (WriteStdin data)) (\<lambda>_.
       case fst res of
         Some msg \<Rightarrow> io_raise (Exception msg)
       | None \<Rightarrow> io_return ())"

definition close_session :: "unit io" where
  "close_session = act CloseSession"

section \<open>Readiness waits\<close>

text \<open>
  The \<^verbatim>\<open>for event in w.stream(...)\<close> loops. A loop yields \<open>Some b\<close> when its body
  returned \<open>b\<close>, and \<open>None\<close> when the stream ended by its timeout; a stream that
  breaks raises out of the loop.
\<close>

definition ready_condition :: "pod \<Rightarrow> pod_condition option" where
  "ready_condition pod =
     (let conditions = (case status_conditions pod of Some cs \<Rightarrow> cs | None \<Rightarrow> [])
      in find (\<lambda>c. cond_type c = ''Ready'') conditions)"

fun pod_ready_events :: "string \<Rightarrow> pod list \<Rightarrow> string option \<Rightarrow> bool option io" where
  "pod_ready_events name [] ending =
     (case ending of Some msg \<Rightarrow> io_raise (Exception msg) | None \<Rightarrow> io_return None)"
| "pod_ready_events name (pod # rest) ending =
     (if metadata_name pod = name \<and> status_phase pod = ''Running'' then
        (case ready_condition pod of
           Some c \<Rightarrow>
             if cond_status c = ''True''
             then io_bind (act WatchStop) (\<lambda>_. io_return (Some True))
             else pod_ready_events name rest ending
         | None \<Rightarrow> pod_ready_events name rest ending)
      else pod_ready_events name rest ending)"

definition wait_for_pod_ready :: "world \<Rightarrow> string \<Rightarrow> string \<Rightarrow> int \<Rightarrow> bool io" where
  "wait_for_pod_ready w name namespace timeout =
     io_bind (get_static_client w) (\<lambda>sclient.
     io_bind (act (WatchOpen namespace timeout)) (\<lambda>_.
     case watch_pods w namespace timeout of
       (events, ending) \<Rightarrow>
         io_bind (pod_ready_events name events ending) (\<lambda>r.
           case r of
             Some b \<Rightarrow> io_return b
           | None \<Rightarrow>
               io_bind (py_print (''Timeout waiting for pod '' @ name @ '' to be ready.''))
                 (\<lambda>_. io_return False))))"

definition init_ready_message :: "string \<Rightarrow> string \<Rightarrow> string" where
  "init_ready_message pod_name namespace =
     ''initContainer in pod '' @ pod_name @ '' ('' @ namespace @ '') is ready''"

definition init_timeout_message :: "string \<Rightarrow> string \<Rightarrow> string" where
  "init_timeout_message pod_name namespace =
     ''Timeout waiting for initContainer in '' @ pod_name @ '' ('' @ namespace @
     '') to be ready.''"

fun init_statuses :: "string \<Rightarrow> string \<Rightarrow> bool \<Rightarrow> container_status list \<Rightarrow> bool option io" where
  "init_statuses pod_name namespace quiet [] = io_return None"
| "init_statuses pod_name namespace quiet (init_container_status # rest) =
     (if cs_state init_container_status = StateRunning then
        io_bind (if \<not> quiet then py_print (init_ready_message pod_name namespace)
                 else io_return ()) (\<lambda>_.
        io_bind (act WatchStop) (\<lambda>_.
        io_return (Some True)))
      else init_statuses pod_name namespace quiet rest)"

fun init_events ::
  "string \<Rightarrow> string \<Rightarrow> bool \<Rightarrow> pod list \<Rightarrow> string option \<Rightarrow> bool option io" where
  "init_events pod_name namespace quiet [] ending =
     (case ending of Some msg \<Rightarrow> io_raise (Exception msg) | None \<Rightarrow> io_return None)"
| "init_events pod_name namespace quiet (pod # rest) ending =
     (if metadata_name pod = pod_name then
        (case status_init_container_statuses pod of
           None \<Rightarrow> init_events pod_name namespace quiet rest ending
         | Some statuses \<Rightarrow>
             if statuses = [] then init_events pod_name namespace quiet rest ending
             else
               io_bind (init_statuses pod_name namespace quiet statuses) (\<lambda>r.
                 case r of
                   Some b \<Rightarrow> io_return (Some b)
                 | None \<Rightarrow> init_events pod_name namespace quiet rest ending))
      else init_events pod_name namespace quiet rest ending)"

definition wait_for_init :: "world \<Rightarrow> string \<Rightarrow> int \<Rightarrow> string option \<Rightarrow> bool \<Rightarrow> bool io" where
  "wait_for_init w pod_name timeout namespace quiet =
     io_bind (get_default_namespace_or w namespace) (\<lambda>namespace.
     io_bind (get_static_client w) (\<lambda>sclient.
     io_bind (act (WatchOpen namespace timeout)) (\<lambda>_.
     case watch_pods w namespace timeout of
       (events, ending) \<Rightarrow>
         io_bind (init_events pod_name namespace quiet events ending) (\<lambda>r.
           case r of
             Some b \<Rightarrow> io_return b
           | None \<Rightarrow>
               io_bind (if \<not> quiet then py_print (init_timeout_message pod_name namespace)
                        else io_return ()) (\<lambda>_.
               io_return False)))))"

text \<open>\<^verbatim>\<open>"ingress-nginx-controller" in pod.metadata.name\<close> is a substring test.\<close>

fun ingress_pods :: "world \<Rightarrow> pod list \<Rightarrow> int \<Rightarrow> bool io" where
  "ingress_pods w [] timeout = io_return False"
| "ingress_pods w (pod # rest) timeout =
     (if sublist ''ingress-nginx-controller'' (metadata_name pod)
      then wait_for_pod_ready w (metadata_name pod) (INGRESS_NAMESPACE w) timeout
      else ingress_pods w rest timeout)"

definition wait_for_ingress_controller :: "world \<Rightarrow> int \<Rightarrow> bool io" where
  "wait_for_ingress_controller w timeout =
     io_bind (get_static_client w) (\<lambda>sclient.
     io_bind (act (ListPods (INGRESS_NAMESPACE w))) (\<lambda>_.
     case list_namespaced_pod w (INGRESS_NAMESPACE w) of
       Inl msg \<Rightarrow> io_raise (Exception msg)
     | Inr pods \<Rightarrow> ingress_pods w pods timeout))"

section \<open>\<^verbatim>\<open>write_file_to_container\<close>\<close>

definition receive_command :: "string \<Rightarrow> string list" where
  "receive_command dst_path = [''sh'', ''-c'', ''cat > '' @ dst_path @ ''.tmp && sync'']"

definition rename_command :: "string \<Rightarrow> string list" where
  "rename_command dst_path = [''sh'', ''-c'', ''mv '' @ dst_path @ ''.tmp '' @ dst_path]"

definition copied_message :: "string \<Rightarrow> string \<Rightarrow> string \<Rightarrow> string" where
  "copied_message pod_name container_name dst_path =
     ''Successfully copied data to '' @ pod_name @ ''('' @ container_name @ ''):'' @ dst_path"

definition failed_message :: "string \<Rightarrow> string \<Rightarrow> string \<Rightarrow> string \<Rightarrow> string" where
  "failed_message pod_name container_name dst_path e =
     ''Failed to copy data to '' @ pod_name @ ''('' @ container_name @ ''):'' @ dst_path @
     '':'' @ nl @ e"

text \<open>The result is Python's \<^verbatim>\<open>Optional[bool]\<close>: \<open>None\<close> is the value of a function
  that falls off its end.\<close>

definition write_file_try ::
  "world \<Rightarrow> string \<Rightarrow> string \<Rightarrow> string \<Rightarrow> string \<Rightarrow> string \<Rightarrow> bool
     \<Rightarrow> bool option io" where
  "write_file_try w pod_name container_name dst_path data namespace quiet =
     io_bind (stream_open w pod_name namespace (receive_command dst_path)
                (Some container_name) True) (\<lambda>res.
     io_bind (write_stdin res data) (\<lambda>_.
     io_bind close_session (\<lambda>_.
     io_bind (stream_run w pod_name namespace (rename_command dst_path)
                (Some container_name) False) (\<lambda>_.
     io_bind (if \<not> quiet
              then py_print (copied_message pod_name container_name dst_path)
              else io_return ()) (\<lambda>_.
     io_return (Some True))))))"

definition write_file_to_container ::
  "world \<Rightarrow> string \<Rightarrow> string \<Rightarrow> string \<Rightarrow> string \<Rightarrow> string option \<Rightarrow> bool
     \<Rightarrow> bool option io" where
  "write_file_to_container w pod_name container_name dst_path data namespace quiet =
     io_bind (get_default_namespace_or w namespace) (\<lambda>namespace.
     io_bind (get_static_client w) (\<lambda>sclient.
       try_except
         (write_file_try w pod_name container_name dst_path data namespace quiet)
         (\<lambda>e. io_bind (py_print (failed_message pod_name container_name dst_path e)) (\<lambda>_.
               io_return None))))"

section \<open>Python strings and \<^verbatim>\<open>posixpath\<close>\<close>

text \<open>
  A \<open>string\<close> of this theory stands for a Python \<^verbatim>\<open>str\<close> whose characters are the code
  points U+0000 to U+00FF, one \<open>char\<close> for each code point (the Latin-1 range); lengths and
  indices therefore count what Python counts. Of these code points \<^verbatim>\<open>str.isspace\<close>, and
  with it \<^verbatim>\<open>str.strip()\<close>, accepts the ten ASCII ones (tab to carriage return, the four
  separators U+001C to U+001F, the space) and the two above them, U+0085 (next line) and
  U+00A0 (no-break space). Python's other white-space characters lie beyond U+00FF.
\<close>

definition py_isspace :: "char \<Rightarrow> bool" where
  "py_isspace c =
     (c \<in> set [CHR 0x09, CHR 0x0A, CHR 0x0B, CHR 0x0C, CHR 0x0D,
               CHR 0x1C, CHR 0x1D, CHR 0x1E, CHR 0x1F, CHR 0x20,
               CHR 0x85, CHR 0xA0])"

definition py_strip :: "string \<Rightarrow> string" where
  "py_strip s = rev (dropWhile py_isspace (rev (dropWhile py_isspace s)))"

text \<open>\<^verbatim>\<open>s.split(sep)\<close> for a one-character separator: never the empty list.\<close>

fun py_split :: "char \<Rightarrow> string \<Rightarrow> string list" where
  "py_split sep [] = [[]]"
| "py_split sep (c # cs) =
     (if c = sep then [] # py_split sep cs
      else (case py_split sep cs of
              [] \<Rightarrow> [[c]]
            | x # xs \<Rightarrow> (c # x) # xs))"

text \<open>\<^verbatim>\<open>sep.join(parts)\<close>.\<close>

fun py_join :: "string \<Rightarrow> string list \<Rightarrow> string" where
  "py_join sep [] = []"
| "py_join sep [x] = x"
| "py_join sep (x # y # ys) = x @ sep @ py_join sep (y # ys)"

definition isabs :: "string \<Rightarrow> bool" where
  "isabs s = prefix ''/'' s"

text \<open>One step of \<^verbatim>\<open>posixpath.join\<close>, and the call on a list of components.\<close>

definition path_join2 :: "string \<Rightarrow> string \<Rightarrow> string" where
  "path_join2 path b =
     (if prefix ''/'' b then b
      else if path = [] \<or> suffix ''/'' path then path @ b
      else path @ ''/'' @ b)"

definition path_join :: "string \<Rightarrow> string list \<Rightarrow> string" where
  "path_join a p = foldl path_join2 a p"

text \<open>The component loop of \<^verbatim>\<open>posixpath.normpath\<close>.\<close>

fun norm_comps :: "bool \<Rightarrow> string list \<Rightarrow> string list \<Rightarrow> string list" where
  "norm_comps initial_slashes [] new_comps = new_comps"
| "norm_comps initial_slashes (component # comps) new_comps =
     (if component = [] \<or> component = ''.'' then norm_comps initial_slashes comps new_comps
      else if component \<noteq> ''..'' \<or> (\<not> initial_slashes \<and> new_comps = []) \<or>
              (new_comps \<noteq> [] \<and> last new_comps = ''..'')
      then norm_comps initial_slashes comps (new_comps @ [component])
      else if new_comps \<noteq> [] then norm_comps initial_slashes comps (butlast new_comps)
      else norm_comps initial_slashes comps new_comps)"

definition normpath :: "string \<Rightarrow> string" where
  "normpath path =
     (if path = [] then ''.''
      else
        let initial_slashes =
              (if prefix ''/'' path
               then (if prefix ''//'' path \<and> \<not> prefix ''///'' path then 2 else 1 :: nat)
               else 0);
            comps = norm_comps (initial_slashes \<noteq> 0) (py_split CHR ''/'' path) [];
            joined = replicate initial_slashes CHR ''/'' @ py_join ''/'' comps
        in if joined = [] then ''.'' else joined)"

text \<open>\<^verbatim>\<open>str(PurePosixPath(s))\<close>: repeated slashes, \<^verbatim>\<open>.\<close> components and a trailing
  slash go; exactly two leading slashes stay.\<close>

definition pure_posix_path :: "string \<Rightarrow> string" where
  "pure_posix_path s =
     (let root = (if prefix ''//'' s \<and> \<not> prefix ''///'' s then ''//''
                  else if prefix ''/'' s then ''/'' else []);
          parts = filter (\<lambda>x. x \<noteq> [] \<and> x \<noteq> ''.'') (py_split CHR ''/'' s);
          joined = root @ py_join ''/'' parts
      in if joined = [] then ''.'' else joined)"

definition abspath :: "world \<Rightarrow> string \<Rightarrow> string" where
  "abspath w path =
     normpath (if isabs path then path else path_join (getcwd w) [path])"

text \<open>\<^verbatim>\<open>os.path.relpath(path, start)\<close>: first what it computes for a non-empty
  \<open>path\<close>, then the function itself; an empty \<open>path\<close> raises \<^verbatim>\<open>ValueError\<close>.\<close>

definition path_comps :: "world \<Rightarrow> string \<Rightarrow> string list" where
  "path_comps w path = filter (\<lambda>x. x \<noteq> []) (py_split CHR ''/'' (abspath w path))"

definition rel_list :: "world \<Rightarrow> string \<Rightarrow> string \<Rightarrow> string list" where
  "rel_list w path start =
     (let start_list = path_comps w start;
          path_list = path_comps w path;
          i = length (longest_common_prefix start_list path_list)
      in replicate (length start_list - i) ''..'' @ drop i path_list)"

definition relpath_of :: "world \<Rightarrow> string \<Rightarrow> string \<Rightarrow> string" where
  "relpath_of w path start =
     (case rel_list w path start of
        [] \<Rightarrow> ''.''
      | r # rs \<Rightarrow> path_join r rs)"

definition relpath :: "world \<Rightarrow> string \<Rightarrow> string \<Rightarrow> exn + string" where
  "relpath w path start =
     (if path = [] then Inl (Exception ''no path specified'')
      else Inr (relpath_of w path start))"

section \<open>\<^verbatim>\<open>snapshot_bitcoin_datadir\<close>\<close>

definition base_dir :: "string \<Rightarrow> string" where
  "base_dir chain = ''/root/.bitcoin/'' @ chain"

text \<open>\<^verbatim>\<open>if filters:\<close> is false for \<^verbatim>\<open>None\<close> and for the empty list.\<close>

definition find_command :: "string \<Rightarrow> string list option \<Rightarrow> string list" where
  "find_command chain filters =
     (case filters of
        Some (f0 # rest) \<Rightarrow>
          foldl (\<lambda>cmd f. cmd @ [''-o'', ''-name'', f])
            [''find'', base_dir chain, ''('', ''-type'', ''f'', ''-o'', ''-type'', ''d'', '')'',
             ''('', ''-name'', f0]
            rest
          @ ['')'']
      | _ \<Rightarrow> [''find'', base_dir chain])"

text \<open>The first poll loop: stdout is split into the file list, stderr is printed.\<close>

fun collect_file_list :: "poll list \<Rightarrow> string list \<Rightarrow> string list io" where
  "collect_file_list [] file_list = io_return file_list"
| "collect_file_list (PollRaise msg # rest) file_list = io_raise (Exception msg)"
| "collect_file_list (PollData out err # rest) file_list =
     io_bind (if err \<noteq> [] then py_print (''Error: '' @ err) else io_return ()) (\<lambda>_.
       collect_file_list rest
         (if out \<noteq> [] then file_list @ py_split CHR 0x0A (py_strip out) else file_list))"

text \<open>The list comprehension \<^verbatim>\<open>[os.path.relpath(f, base) for f in file_list if f.strip()]\<close>.\<close>

fun relpaths :: "world \<Rightarrow> string \<Rightarrow> string list \<Rightarrow> string list io" where
  "relpaths w start [] = io_return []"
| "relpaths w start (f # rest) =
     (if py_strip f \<noteq> [] then
        (case relpath w f start of
           Inl e \<Rightarrow> io_raise e
         | Inr r \<Rightarrow> io_bind (relpaths w start rest) (\<lambda>rs. io_return (r # rs)))
      else relpaths w start rest)"

definition tar_command :: "world \<Rightarrow> string \<Rightarrow> string list \<Rightarrow> string list io" where
  "tar_command w chain file_list =
     io_bind (relpaths w (base_dir chain) file_list) (\<lambda>paths.
       io_return ([''tar'', ''-czf'', ''/tmp/bitcoin_data.tar.gz'', ''-C'', base_dir chain]
                  @ paths))"

text \<open>The second poll loop only prints.\<close>

fun drain_tar :: "poll list \<Rightarrow> unit io" where
  "drain_tar [] = io_return ()"
| "drain_tar (PollRaise msg # rest) = io_raise (Exception msg)"
| "drain_tar (PollData out err # rest) =
     io_bind (if out \<noteq> [] then py_print (''Tar output: '' @ out) else io_return ()) (\<lambda>_.
     io_bind (if err \<noteq> [] then py_print (''Error: '' @ err) else io_return ()) (\<lambda>_.
       drain_tar rest))"

definition cleanup_command :: "string list" where
  "cleanup_command = [''rm'', ''/tmp/bitcoin_data.tar.gz'']"

definition local_file_path :: "world \<Rightarrow> string \<Rightarrow> string \<Rightarrow> string" where
  "local_file_path w local_path pod_name =
     pathlib_join w local_path (pod_name @ ''_bitcoin_data.tar.gz'')"

definition copy_command :: "world \<Rightarrow> string \<Rightarrow> string \<Rightarrow> string \<Rightarrow> string" where
  "copy_command w namespace pod_name local_path =
     ''kubectl cp '' @ namespace @ ''/'' @ pod_name @ '':/tmp/bitcoin_data.tar.gz '' @
     local_file_path w local_path pod_name"

definition read_pod :: "world \<Rightarrow> string \<Rightarrow> string \<Rightarrow> unit io" where
  "read_pod w name namespace =
     io_bind (act (ReadPod name namespace)) (\<lambda>_.
       case read_namespaced_pod w name namespace of
         Some msg \<Rightarrow> io_raise (Exception msg)
       | None \<Rightarrow> io_return ())"

text \<open>What follows the emptiness test of the file list, up to the end of the \<^verbatim>\<open>try\<close>.\<close>

definition snapshot_archive ::
  "world \<Rightarrow> string \<Rightarrow> string \<Rightarrow> string \<Rightarrow> string \<Rightarrow> string list \<Rightarrow> unit io" where
  "snapshot_archive w pod_name chain local_path namespace file_list =
     io_bind (tar_command w chain file_list) (\<lambda>tar_command.
     io_bind (stream_open w pod_name namespace tar_command None False) (\<lambda>resp.
     io_bind (drain_tar (snd resp)) (\<lambda>_.
     io_bind close_session (\<lambda>_.
     io_bind (stream_command w (copy_command w namespace pod_name local_path)) (\<lambda>copied.
     io_bind (if \<not> copied
              then io_raise (Exception ''Failed to copy tar file from pod to local machine'')
              else io_return ()) (\<lambda>_.
     io_bind (py_print (''Bitcoin data exported successfully to '' @
                        local_file_path w local_path pod_name)) (\<lambda>_.
     io_bind (stream_run w pod_name namespace cleanup_command None False) (\<lambda>_.
     io_bind (py_print ''To untar and repopulate the directory, use the following command:'')
       (\<lambda>_.
     py_print (''tar -xzf '' @ local_file_path w local_path pod_name @
               '' -C /path/to/destination/.bitcoin/'' @ chain))))))))))"

text \<open>The body of the \<^verbatim>\<open>try\<close>.\<close>

definition snapshot_try ::
  "world \<Rightarrow> string \<Rightarrow> string \<Rightarrow> string \<Rightarrow> string list option \<Rightarrow> string \<Rightarrow> unit io" where
  "snapshot_try w pod_name chain local_path filters namespace =
     io_bind (read_pod w pod_name namespace) (\<lambda>_.
     io_bind (stream_open w pod_name namespace (find_command chain filters) None False) (\<lambda>resp.
     io_bind (collect_file_list (snd resp) []) (\<lambda>file_list.
     io_bind close_session (\<lambda>_.
       if file_list = [] then py_print ''No matching files or directories found.''
       else snapshot_archive w pod_name chain local_path namespace file_list))))"

text \<open>The result \<open>Inr ()\<close> is Python's \<^verbatim>\<open>None\<close>, the only value the function returns.\<close>

definition snapshot_bitcoin_datadir ::
  "world \<Rightarrow> string \<Rightarrow> string \<Rightarrow> string \<Rightarrow> string list option \<Rightarrow> string option \<Rightarrow> unit io" where
  "snapshot_bitcoin_datadir w pod_name chain local_path filters namespace =
     io_bind (get_default_namespace_or w namespace) (\<lambda>namespace.
     io_bind (get_static_client w) (\<lambda>sclient.
       try_except
         (snapshot_try w pod_name chain local_path filters namespace)
         (\<lambda>e. py_print (''An error occurred: '' @ e))))"

section \<open>What a \<^verbatim>\<open>find\<close> command selects\<close>

text \<open>
  To say which paths the command built by \<open>find_command\<close> selects, the command line is
  read the way \<^verbatim>\<open>find\<close> reads it: the starting points come first, the expression
  starts at the first argument that is \<^verbatim>\<open>(\<close>, \<^verbatim>\<open>!\<close> or begins with \<^verbatim>\<open>-\<close>.
  In the expression \<^verbatim>\<open>-o\<close> binds weaker than juxtaposition (and \<^verbatim>\<open>-a\<close>), which binds
  weaker than \<^verbatim>\<open>!\<close> and parentheses. Of the tests only \<^verbatim>\<open>-type\<close> and \<^verbatim>\<open>-name\<close> are
  needed. An entry of the walk is given by its file type letter and its base name; the
  shell-pattern matcher is a parameter. The evaluators count down a recursion budget and
  answer \<open>None\<close> on a malformed expression.
\<close>

record entry =
  entry_type :: char
  entry_name :: string

fun eval_or :: "nat \<Rightarrow> (string \<Rightarrow> string \<Rightarrow> bool) \<Rightarrow> entry \<Rightarrow> string list
                  \<Rightarrow> (bool \<times> string list) option"
  and eval_and :: "nat \<Rightarrow> (string \<Rightarrow> string \<Rightarrow> bool) \<Rightarrow> entry \<Rightarrow> string list
                  \<Rightarrow> (bool \<times> string list) option"
  and eval_prim :: "nat \<Rightarrow> (string \<Rightarrow> string \<Rightarrow> bool) \<Rightarrow> entry \<Rightarrow> string list
                  \<Rightarrow> (bool \<times> string list) option" where
  "eval_or 0 m e ts = None"
| "eval_or (Suc n) m e ts =
     (case eval_and n m e ts of
        None \<Rightarrow> None
      | Some (b, r) \<Rightarrow>
          (case r of
             [] \<Rightarrow> Some (b, r)
           | t # r' \<Rightarrow>
               if t = ''-o'' then
                 (case eval_or n m e r' of
                    None \<Rightarrow> None
                  | Some (b', r'') \<Rightarrow> Some (b \<or> b', r''))
               else Some (b, r)))"
| "eval_and 0 m e ts = None"
| "eval_and (Suc n) m e ts =
     (case eval_prim n m e ts of
        None \<Rightarrow> None
      | Some (b, r) \<Rightarrow>
          (case r of
             [] \<Rightarrow> Some (b, r)
           | t # r' \<Rightarrow>
               if t = ''-o'' \<or> t = '')'' then Some (b, r)
               else
                 (case eval_and n m e (if t = ''-a'' then r' else r) of
                    None \<Rightarrow> None
                  | Some (b', r'') \<Rightarrow> Some (b \<and> b', r''))))"
| "eval_prim 0 m e ts = None"
| "eval_prim (Suc n) m e ts =
     (case ts of
        [] \<Rightarrow> None
      | t # r \<Rightarrow>
          if t = ''('' then
            (case eval_or n m e r of
               None \<Rightarrow> None
             | Some (b, r') \<Rightarrow>
                 (case r' of
                    [] \<Rightarrow> None
                  | t' # r'' \<Rightarrow> if t' = '')'' then Some (b, r'') else None))
          else if t = ''!'' then
            (case eval_prim n m e r of
               None \<Rightarrow> None
             | Some (b, r') \<Rightarrow> Some (\<not> b, r'))
          else if t = ''-type'' then
            (case r of [] \<Rightarrow> None | c # r' \<Rightarrow> Some (c = [entry_type e], r'))
          else if t = ''-name'' then
            (case r of [] \<Rightarrow> None | p # r' \<Rightarrow> Some (m p (entry_name e), r'))
          else None)"

definition is_expr_start :: "string \<Rightarrow> bool" where
  "is_expr_start a = (a = ''('' \<or> a = ''!'' \<or> prefix ''-'' a)"

definition find_starts :: "string list \<Rightarrow> string list" where
  "find_starts cmd = takeWhile (\<lambda>a. \<not> is_expr_start a) (tl cmd)"

definition find_expr :: "string list \<Rightarrow> string list" where
  "find_expr cmd = dropWhile (\<lambda>a. \<not> is_expr_start a) (tl cmd)"

text \<open>Whether the command prints an entry it meets below one of its starting points.
  An empty expression is true of every entry.\<close>

definition find_selects :: "(string \<Rightarrow> string \<Rightarrow> bool) \<Rightarrow> string list \<Rightarrow> entry \<Rightarrow> bool" where
  "find_selects m cmd e =
     (case find_expr cmd of
        [] \<Rightarrow> True
      | t # ts \<Rightarrow>
          (case eval_or (3 * length (t # ts) + 3) m e (t # ts) of
             Some (b, []) \<Rightarrow> b
           | _ \<Rightarrow> False))"

section \<open>Conditions on the outside world\<close>

text \<open>Namespace resolution and client construction, the two calls every operation makes
  before anything else.\<close>

definition open_client :: "world \<Rightarrow> string option \<Rightarrow> string io" where
  "open_client w namespace =
     io_bind (get_default_namespace_or w namespace) (\<lambda>ns.
     io_bind (get_static_client w) (\<lambda>_. io_return ns))"

text \<open>The three remote steps of \<open>write_file_to_container\<close> all go through: the receive
  session opens and takes the payload, the rename session opens and runs to its end.\<close>

definition write_file_steps_ok ::
  "world \<Rightarrow> string \<Rightarrow> string \<Rightarrow> string \<Rightarrow> string \<Rightarrow> bool" where
  "write_file_steps_ok w pod_name container_name dst_path namespace =
     (case pod_exec w pod_name namespace (receive_command dst_path) (Some container_name) of
        OpenFails msg \<Rightarrow> False
      | Session werr polls \<Rightarrow>
          werr = None \<and>
          (case pod_exec w pod_name namespace (rename_command dst_path) (Some container_name) of
             OpenFails msg \<Rightarrow> False
           | Session werr' polls' \<Rightarrow> snd (run_forever polls') = Inr ()))"

text \<open>The test \<open>wait_for_pod_ready\<close> applies to an event: the name, the phase, and the
  status of the first condition of type \<^verbatim>\<open>Ready\<close>.\<close>

definition pod_is_ready :: "string \<Rightarrow> pod \<Rightarrow> bool" where
  "pod_is_ready name pod =
     (metadata_name pod = name \<and> status_phase pod = ''Running'' \<and>
      (case ready_condition pod of Some c \<Rightarrow> cond_status c = ''True'' | None \<Rightarrow> False))"

text \<open>The conditions of a pod (\<^verbatim>\<open>pod.status.conditions or []\<close>); whether one of them has
  type \<^verbatim>\<open>Ready\<close> and status \<^verbatim>\<open>True\<close>; and the event the wait is for: the requested
  name, phase \<^verbatim>\<open>Running\<close>, and such a condition.\<close>

definition conditions_of :: "pod \<Rightarrow> pod_condition list" where
  "conditions_of pod = (case status_conditions pod of Some cs \<Rightarrow> cs | None \<Rightarrow> [])"

definition carries_ready :: "pod \<Rightarrow> bool" where
  "carries_ready pod =
     list_ex (\<lambda>c. cond_type c = ''Ready'' \<and> cond_status c = ''True'') (conditions_of pod)"

definition ready_event :: "string \<Rightarrow> pod \<Rightarrow> bool" where
  "ready_event name pod =
     (metadata_name pod = name \<and> status_phase pod = ''Running'' \<and> carries_ready pod)"

text \<open>The cluster keys the conditions of a pod by their type: a pod it delivers has at most
  one condition of type \<^verbatim>\<open>Ready\<close>.\<close>

definition ready_once :: "pod \<Rightarrow> bool" where
  "ready_once pod =
     (length (filter (\<lambda>c. cond_type c = ''Ready'') (conditions_of pod)) \<le> 1)"

text \<open>The init container statuses of an event, none when the field is not populated, and
  the test \<open>wait_for_init\<close> applies: the name, and some init container running.\<close>

definition init_statuses_of :: "pod \<Rightarrow> container_status list" where
  "init_statuses_of pod =
     (case status_init_container_statuses pod of None \<Rightarrow> [] | Some statuses \<Rightarrow> statuses)"

definition init_is_running :: "string \<Rightarrow> pod \<Rightarrow> bool" where
  "init_is_running pod_name pod =
     (metadata_name pod = pod_name \<and>
      list_ex (\<lambda>s. cs_state s = StateRunning) (init_statuses_of pod))"

text \<open>A computation that never ends in \<open>SystemExit\<close>, and an action that only prints.\<close>

definition no_exit :: "'a io \<Rightarrow> bool" where
  "no_exit m = (case snd m of Inl (SystemExit c) \<Rightarrow> False | _ \<Rightarrow> True)"

definition is_print :: "action \<Rightarrow> bool" where
  "is_print a = (case a of Stdout s \<Rightarrow> True | _ \<Rightarrow> False)"

text \<open>The archive was written and fetched: the \<^verbatim>\<open>tar\<close> session opened and ran to its
  end, and the \<^verbatim>\<open>kubectl cp\<close> exited with code 0.\<close>

definition archive_copied ::
  "world \<Rightarrow> string \<Rightarrow> string \<Rightarrow> string \<Rightarrow> string \<Rightarrow> string list \<Rightarrow> bool" where
  "archive_copied w pod_name chain local_path namespace file_list =
     (case snd (tar_command w chain file_list) of
        Inl e \<Rightarrow> False
      | Inr cmd \<Rightarrow>
          (case pod_exec w pod_name namespace cmd None of
             OpenFails msg \<Rightarrow> False
           | Session werr polls \<Rightarrow>
               snd (drain_tar polls) = Inr () \<and>
               snd (popen_lines w (copy_command w namespace pod_name local_path)) = 0))"

text \<open>The cleanup session opened and ran to its end.\<close>

definition cleanup_ok :: "world \<Rightarrow> string \<Rightarrow> string \<Rightarrow> bool" where
  "cleanup_ok w pod_name namespace =
     (case pod_exec w pod_name namespace cleanup_command None of
        OpenFails msg \<Rightarrow> False
      | Session werr polls \<Rightarrow> snd (run_forever polls) = Inr ())"

section \<open>Example worlds\<close>

text \<open>A cluster where everything answers and nothing is found: \<^verbatim>\<open>kubectl\<close> names the
  namespace \<^verbatim>\<open>warnet\<close>, every exec session opens and closes at once without output, no pod
  is listed and no watch event arrives. The examples below change one answer at a time.\<close>

definition calm :: world where
  "calm =
     \<lparr>subprocess_run = (\<lambda>_. (0, ''warnet'', [])),
      popen_lines = (\<lambda>_. ([], 0)),
      load_kube_config = None,
      read_namespaced_pod = (\<lambda>_ _. None),
      list_namespaced_pod = (\<lambda>_. Inr []),
      watch_pods = (\<lambda>_ _. ([], None)),
      pod_exec = (\<lambda>_ _ _ _. Session None []),
      getcwd = ''/home/user'',
      pathlib_join = (\<lambda>a b. pure_posix_path (path_join2 a b)),
      DEFAULT_NAMESPACE = ''default'',
      INGRESS_NAMESPACE = ''ingress''\<rparr>"

text \<open>No exec session can be opened.\<close>

definition exec_down :: world where
  "exec_down = calm\<lparr>pod_exec := (\<lambda>_ _ _ _. OpenFails ''Handshake status 404 Not Found'')\<rparr>"

text \<open>A running pod whose containers are not ready yet.\<close>

definition starting_pod :: pod where
  "starting_pod =
     \<lparr>metadata_name = ''tank-0'', status_phase = ''Running'',
      status_conditions =
        Some [\<lparr>cond_type = ''Initialized'', cond_status = ''True''\<rparr>,
              \<lparr>cond_type = ''Ready'', cond_status = ''False''\<rparr>],
      status_init_container_statuses = None\<rparr>"

text \<open>A running and ready pod.\<close>

definition ready_pod :: pod where
  "ready_pod =
     \<lparr>metadata_name = ''tank-0'', status_phase = ''Running'',
      status_conditions =
        Some [\<lparr>cond_type = ''Initialized'', cond_status = ''True''\<rparr>,
              \<lparr>cond_type = ''Ready'', cond_status = ''True''\<rparr>],
      status_init_container_statuses = None\<rparr>"

text \<open>Pod \<^verbatim>\<open>alpha\<close>, observed before its init container statuses exist.\<close>

definition alpha_pending :: pod where
  "alpha_pending =
     \<lparr>metadata_name = ''alpha'', status_phase = ''Pending'',
      status_conditions = None,
      status_init_container_statuses = None\<rparr>"

definition watching :: "pod list \<Rightarrow> world" where
  "watching events = calm\<lparr>watch_pods := (\<lambda>_ _. (events, None))\<rparr>"

text \<open>The ingress namespace lists one pod, which is not the controller.\<close>

definition no_controller :: world where
  "no_controller =
     (watching [alpha_pending])\<lparr>list_namespaced_pod := (\<lambda>_. Inr [alpha_pending])\<rparr>"

text \<open>The \<^verbatim>\<open>find\<close> session prints one path; every other session is silent.\<close>

definition found :: world where
  "found =
     calm\<lparr>pod_exec := (\<lambda>_ _ cmd _.
        if take 1 cmd = [''find'']
        then Session None [PollData (''/root/.bitcoin/regtest/peers.dat'' @ nl) []]
        else Session None [])\<rparr>"

text \<open>As \<open>found\<close>, but \<^verbatim>\<open>kubectl cp\<close> exits with code 1.\<close>

definition copy_fails :: world where
  "copy_fails = found\<lparr>popen_lines := (\<lambda>_. ([''error: unexpected EOF'' @ nl], 1))\<rparr>"

text \<open>As \<open>found\<close>, but the cleanup session cannot be opened.\<close>

definition cleanup_fails :: world where
  "cleanup_fails =
     calm\<lparr>pod_exec := (\<lambda>_ _ cmd _.
        if take 1 cmd = [''find'']
        then Session None [PollData (''/root/.bitcoin/regtest/peers.dat'' @ nl) []]
        else if take 1 cmd = [''rm''] then OpenFails ''Handshake status 500''
        else Session None [])\<rparr>"

text \<open>\<^verbatim>\<open>kubectl\<close> is not installed.\<close>

definition no_kubectl :: world where
  "no_kubectl =
     calm\<lparr>subprocess_run := (\<lambda>_. (127, [], ''bash: line 1: kubectl: command not found'' @ nl))\<rparr>"

text \<open>The pod does not exist.\<close>

definition pod_missing :: world where
  "pod_missing = calm\<lparr>read_namespaced_pod := (\<lambda>_ _. Some ''(404) Reason: Not Found'')\<rparr>"

text \<open>A symbolic link named \<^verbatim>\<open>peers.dat\<close>, and a regular file of that name.\<close>

definition peers_link :: entry where
  "peers_link = \<lparr>entry_type = CHR ''l'', entry_name = ''peers.dat''\<rparr>"

definition peers_file :: entry where
  "peers_file = \<lparr>entry_type = CHR ''f'', entry_name = ''peers.dat''\<rparr>"

section \<open>The monad laws used below\<close>

lemma fst_io_bind:
  "fst (io_bind m f) = (case snd m of Inl e \<Rightarrow> fst m | Inr x \<Rightarrow> fst m @ fst (f x))"
  by (cases m) (auto simp: io_bind_def split: sum.splits prod.splits)

lemma snd_io_bind:
  "snd (io_bind m f) = (case snd m of Inl e \<Rightarrow> Inl e | Inr x \<Rightarrow> snd (f x))"
  by (cases m) (auto simp: io_bind_def split: sum.splits prod.splits)

lemma fst_try_except:
  "fst (try_except m h) =
     (case snd m of Inl (Exception msg) \<Rightarrow> fst m @ fst (h msg) | _ \<Rightarrow> fst m)"
  by (cases m) (auto simp: try_except_def split: sum.splits prod.splits exn.splits)

lemma snd_try_except:
  "snd (try_except m h) =
     (case snd m of Inl (Exception msg) \<Rightarrow> snd (h msg) | r \<Rightarrow> r)"
  by (cases m) (auto simp: try_except_def split: sum.splits prod.splits exn.splits)

lemma io_prims [simp]:
  "fst (io_return x) = []" "snd (io_return x) = Inr x"
  "fst (io_raise e) = []" "snd (io_raise e) = Inl e"
  "fst (act a) = [a]" "snd (act a) = Inr ()"
  "fst (py_print s) = [Stdout (s @ nl)]" "snd (py_print s) = Inr ()"
  by (simp_all add: io_return_def io_raise_def act_def py_print_def)

lemmas io_simps = fst_io_bind snd_io_bind fst_try_except snd_try_except

lemma io_bind_pair:
  "io_bind (t, Inr x) f = (t @ fst (f x), snd (f x))"
  "io_bind (t, Inl e) f = (t, Inl e)"
  by (simp_all add: io_bind_def split: prod.splits)

lemmas io_pairs = io_bind_pair io_return_def io_raise_def act_def py_print_def

section \<open>\<^verbatim>\<open>write_file_to_container\<close>: the order of the steps and the result\<close>

lemma run_forever_trace [simp]: "fst (run_forever ps) = []"
  by (induction ps rule: run_forever.induct) simp_all

lemma run_forever_result:
  "snd (run_forever ps) = Inr () \<or> (\<exists>m. snd (run_forever ps) = Inl (Exception m))"
  by (induction ps rule: run_forever.induct) simp_all

lemma write_file_try_ok:
  assumes "write_file_steps_ok w pod_name container_name dst_path namespace"
  shows "write_file_try w pod_name container_name dst_path data namespace quiet =
           ([ExecOpen pod_name namespace (receive_command dst_path) (Some container_name) True False,
             WriteStdin data, CloseSession,
             ExecOpen pod_name namespace (rename_command dst_path) (Some container_name) False True] @
            (if quiet then [] else [Stdout (copied_message pod_name container_name dst_path @ nl)]),
            Inr (Some True))"
  using assms
  unfolding write_file_try_def write_file_steps_ok_def stream_open_def stream_run_def
    write_stdin_def close_session_def
  by (auto simp: io_simps prod_eq_iff split: exec_script.splits)

lemma write_file_try_fail:
  assumes "\<not> write_file_steps_ok w pod_name container_name dst_path namespace"
  shows "\<exists>m. snd (write_file_try w pod_name container_name dst_path data namespace quiet) =
           Inl (Exception m)"
  using assms run_forever_result
  unfolding write_file_try_def write_file_steps_ok_def stream_open_def stream_run_def
    write_stdin_def close_session_def
  by (fastforce simp: io_simps split: exec_script.splits option.splits)

lemma get_default_namespace_ok_trace:
  "snd (get_default_namespace w) = Inr ns \<Longrightarrow>
     fst (get_default_namespace w) = [RunCommand namespace_command]"
  unfolding get_default_namespace_def run_command_def Let_def
  by (auto simp: io_simps split: prod.splits if_splits)

lemma get_default_namespace_or_ok_trace:
  "snd (get_default_namespace_or w namespace) = Inr ns \<Longrightarrow>
     fst (get_default_namespace_or w namespace) =
       (if namespace = None \<or> namespace = Some [] then [RunCommand namespace_command] else [])"
  unfolding get_default_namespace_or_def
  by (auto simp: get_default_namespace_ok_trace split: option.splits if_splits)

lemma fst_open_client:
  "fst (open_client w namespace) =
     (case snd (get_default_namespace_or w namespace) of
        Inl e \<Rightarrow> fst (get_default_namespace_or w namespace)
      | Inr ns \<Rightarrow> fst (get_default_namespace_or w namespace) @ [LoadKubeConfig])"
  unfolding open_client_def get_static_client_def
  by (simp add: io_simps split: sum.splits option.splits)

lemma snd_open_client:
  "snd (open_client w namespace) =
     (case snd (get_default_namespace_or w namespace) of
        Inl e \<Rightarrow> Inl e
      | Inr ns \<Rightarrow> (case load_kube_config w of Some msg \<Rightarrow> Inl (Exception msg) | None \<Rightarrow> Inr ns))"
  unfolding open_client_def get_static_client_def
  by (simp add: io_simps split: sum.splits option.splits)

lemma write_file_unfold:
  "write_file_to_container w pod_name container_name dst_path data namespace quiet =
     io_bind (open_client w namespace) (\<lambda>ns.
       try_except (write_file_try w pod_name container_name dst_path data ns quiet)
         (\<lambda>e. io_bind (py_print (failed_message pod_name container_name dst_path e)) (\<lambda>_.
               io_return None)))"
  unfolding write_file_to_container_def open_client_def get_static_client_def
  by (simp add: prod_eq_iff io_simps split: sum.splits option.splits)

text \<open>
  Claim C3, as amended. \<open>write_file_to_container\<close> returns \<open>True\<close> when the receive
  session opens and takes the payload and the rename session runs to its end. When one of
  these steps raises, it prints a failure message and returns Python's \<open>None\<close>, never
  \<open>False\<close>. A failure of the namespace lookup or of the client construction, both
  outside the \<^verbatim>\<open>try\<close>, is raised to the caller.
\<close>

theorem write_file_result:
  "(case snd (open_client w namespace) of
      Inl e \<Rightarrow>
        snd (write_file_to_container w pod_name container_name dst_path data namespace quiet)
          = Inl e
    | Inr ns \<Rightarrow>
        if write_file_steps_ok w pod_name container_name dst_path ns
        then snd (write_file_to_container w pod_name container_name dst_path data namespace quiet)
               = Inr (Some True)
        else snd (write_file_to_container w pod_name container_name dst_path data namespace quiet)
               = Inr None \<and>
             (\<exists>msg. last (fst (write_file_to_container w pod_name container_name dst_path data
                                 namespace quiet))
                      = Stdout (failed_message pod_name container_name dst_path msg @ nl)))"
proof (cases "snd (open_client w namespace)")
  case (Inl e)
  then show ?thesis by (simp add: write_file_unfold io_simps)
next
  case (Inr ns)
  show ?thesis
  proof (cases "write_file_steps_ok w pod_name container_name dst_path ns")
    case True
    show ?thesis
      using Inr True
      by (simp add: write_file_unfold io_simps write_file_try_ok)
  next
    case False
    from write_file_try_fail [OF False, of data quiet]
    obtain m where "snd (write_file_try w pod_name container_name dst_path data ns quiet)
                      = Inl (Exception m)" by blast
    then show ?thesis
      using Inr False
      by (auto simp: write_file_unfold io_simps)
  qed
qed

text \<open>
  Claim C1. Whenever \<open>write_file_to_container\<close> reports success, its actions were, in
  this order: the namespace lookup (when no namespace was given) and the client
  construction; an exec session with stdin running \<^verbatim>\<open>cat > D.tmp && sync\<close>; the write
  of the whole payload to its stdin; the close of that session; a second exec session,
  without stdin, running \<^verbatim>\<open>mv D.tmp D\<close>; the success message unless \<open>quiet\<close>.
  No other command is run, so nothing but the rename writes to \<open>D\<close>.
\<close>

theorem write_file_success_trace:
  assumes "snd (write_file_to_container w pod_name container_name dst_path data namespace quiet)
             = Inr (Some True)"
  shows "\<exists>ns. snd (get_default_namespace_or w namespace) = Inr ns \<and>
     fst (write_file_to_container w pod_name container_name dst_path data namespace quiet) =
       (if namespace = None \<or> namespace = Some [] then [RunCommand namespace_command] else []) @
       [LoadKubeConfig,
        ExecOpen pod_name ns [''sh'', ''-c'', ''cat > '' @ dst_path @ ''.tmp && sync'']
          (Some container_name) True False,
        WriteStdin data,
        CloseSession,
        ExecOpen pod_name ns [''sh'', ''-c'', ''mv '' @ dst_path @ ''.tmp '' @ dst_path]
          (Some container_name) False True] @
       (if quiet then [] else [Stdout (copied_message pod_name container_name dst_path @ nl)])"
proof (cases "snd (open_client w namespace)")
  case (Inl e)
  with assms show ?thesis by (simp add: write_file_unfold io_simps)
next
  case (Inr ns)
  then have ns: "snd (get_default_namespace_or w namespace) = Inr ns"
    by (auto simp: snd_open_client split: sum.splits option.splits)
  have ok: "write_file_steps_ok w pod_name container_name dst_path ns"
  proof (rule ccontr)
    assume "\<not> ?thesis"
    from write_file_try_fail [OF this, of data quiet] assms Inr show False
      by (auto simp: write_file_unfold io_simps)
  qed
  show ?thesis
    using Inr ns ok get_default_namespace_or_ok_trace [OF ns]
    by (simp add: write_file_unfold io_simps write_file_try_ok fst_open_client
        receive_command_def rename_command_def)
qed

text \<open>The theorem at the scenario of the specification: payload \<^verbatim>\<open>hello\<close>, destination
  \<^verbatim>\<open>/data/cfg.txt\<close>.\<close>

theorem write_file_success_trace_witness:
  "fst (write_file_to_container calm ''tank-0'' ''bitcoincore'' ''/data/cfg.txt'' ''hello'' None False)
     = [RunCommand namespace_command, LoadKubeConfig,
        ExecOpen ''tank-0'' ''warnet'' [''sh'', ''-c'', ''cat > /data/cfg.txt.tmp && sync'']
          (Some ''bitcoincore'') True False,
        WriteStdin ''hello'',
        CloseSession,
        ExecOpen ''tank-0'' ''warnet'' [''sh'', ''-c'', ''mv /data/cfg.txt.tmp /data/cfg.txt'']
          (Some ''bitcoincore'') False True,
        Stdout (copied_message ''tank-0'' ''bitcoincore'' ''/data/cfg.txt'' @ nl)]"
proof -
  have ok: "snd (write_file_to_container calm ''tank-0'' ''bitcoincore'' ''/data/cfg.txt'' ''hello''
                  None False) = Inr (Some True)"
    by (simp add: write_file_to_container_def write_file_try_def get_default_namespace_or_def
        get_default_namespace_def run_command_def get_static_client_def stream_open_def
        stream_run_def write_stdin_def close_session_def calm_def io_simps Let_def)
  have ns: "snd (get_default_namespace_or calm None) = Inr ''warnet''"
    by (simp add: get_default_namespace_or_def
        get_default_namespace_def run_command_def calm_def io_simps Let_def)
  from write_file_success_trace [OF ok] ns show ?thesis by simp
qed

text \<open>Claim C3 as stated fails: when the exec session cannot be opened the result is
  \<open>None\<close>, not a boolean failure value.\<close>

theorem write_file_failure_counterexample:
  "snd (write_file_to_container exec_down ''tank-0'' ''bitcoincore'' ''/data/cfg.txt'' ''hello''
          (Some ''warnet'') False) = Inr None"
  by (simp add: write_file_to_container_def write_file_try_def get_default_namespace_or_def
        get_static_client_def stream_open_def exec_down_def calm_def io_simps)

text \<open>The amended claim at a run that succeeds.\<close>

theorem write_file_result_witness:
  "snd (write_file_to_container calm ''tank-0'' ''bitcoincore'' ''/data/cfg.txt'' ''hello''
          (Some ''warnet'') True) = Inr (Some True)"
proof -
  have oc: "snd (open_client calm (Some ''warnet'')) = Inr ''warnet''"
    by (simp add: snd_open_client get_default_namespace_or_def calm_def)
  have ok: "write_file_steps_ok calm ''tank-0'' ''bitcoincore'' ''/data/cfg.txt'' ''warnet''"
    by (simp add: write_file_steps_ok_def calm_def)
  from write_file_result [where w = calm and namespace = "Some ''warnet''"
      and pod_name = "''tank-0''" and container_name = "''bitcoincore''"
      and dst_path = "''/data/cfg.txt''" and data = "''hello''" and quiet = True] oc ok
  show ?thesis by simp
qed


section \<open>The readiness waits\<close>

lemma pod_ready_events_eq:
  "pod_ready_events name events ending =
     (if list_ex (pod_is_ready name) events then ([WatchStop], Inr (Some True))
      else case ending of Some msg \<Rightarrow> ([], Inl (Exception msg)) | None \<Rightarrow> ([], Inr None))"
  by (induction events)
     (auto simp: pod_is_ready_def io_pairs split: option.splits)

lemma wait_for_pod_ready_eq:
  assumes "watch_pods w namespace timeout = (events, ending)"
  shows "wait_for_pod_ready w name namespace timeout =
     (case load_kube_config w of
        Some msg \<Rightarrow> ([LoadKubeConfig], Inl (Exception msg))
      | None \<Rightarrow>
          if list_ex (pod_is_ready name) events
          then ([LoadKubeConfig, WatchOpen namespace timeout, WatchStop], Inr True)
          else (case ending of
                  Some msg \<Rightarrow> ([LoadKubeConfig, WatchOpen namespace timeout], Inl (Exception msg))
                | None \<Rightarrow>
                    ([LoadKubeConfig, WatchOpen namespace timeout,
                      Stdout (''Timeout waiting for pod '' @ name @ '' to be ready.'' @ nl)],
                     Inr False)))"
  using assms
  unfolding wait_for_pod_ready_def get_static_client_def
  by (simp add: io_pairs pod_ready_events_eq split: option.splits)

lemma find_once:
  "length (filter P xs) \<le> 1 \<Longrightarrow>
     (case find P xs of Some c \<Rightarrow> Q c | None \<Rightarrow> False) = list_ex (\<lambda>c. P c \<and> Q c) xs"
proof (induction xs)
  case Nil
  then show ?case by simp
next
  case (Cons x xs)
  show ?case
  proof (cases "P x")
    case True
    with Cons.prems have "filter P xs = []" by simp
    then have "\<not> list_ex (\<lambda>c. P c \<and> Q c) xs"
      by (auto simp: list_ex_iff filter_empty_conv)
    with True show ?thesis by simp
  next
    case False
    with Cons show ?thesis by simp
  qed
qed

lemma pod_is_ready_once:
  "ready_once pod \<Longrightarrow> pod_is_ready name pod = ready_event name pod"
  unfolding pod_is_ready_def ready_event_def carries_ready_def ready_condition_def
    ready_once_def conditions_of_def Let_def
  by (simp add: find_once)

lemma list_ex_ready_once:
  "list_all ready_once events \<Longrightarrow>
     list_ex (pod_is_ready name) events = list_ex (ready_event name) events"
  by (induction events) (simp_all add: pod_is_ready_once)

text \<open>
  Claim C5. Once the client is built, and on a stream whose pods carry at most one
  condition of type \<^verbatim>\<open>Ready\<close> each, \<open>wait_for_pod_ready\<close> stops the watch and returns
  \<open>True\<close> as soon as an event arrives whose pod has the requested name, is in phase
  \<^verbatim>\<open>Running\<close>, and carries a condition of type \<^verbatim>\<open>Ready\<close> with status \<^verbatim>\<open>True\<close>:
  the events after it and the way the stream would have ended play no part. When the
  stream contains no such event and ends by its timeout, it prints the timeout message and
  returns \<open>False\<close>.
\<close>

theorem wait_for_pod_ready_first_ready:
  assumes "load_kube_config w = None"
    and "watch_pods w namespace timeout = (events, ending)"
    and "list_all ready_once events"
  shows "(list_ex (ready_event name) events \<longrightarrow>
            wait_for_pod_ready w name namespace timeout =
              ([LoadKubeConfig, WatchOpen namespace timeout, WatchStop], Inr True)) \<and>
         (\<forall>pre p post other.
            events = pre @ p # post \<and> ready_event name p \<longrightarrow>
              pod_ready_events name (pre @ p # other) None =
              pod_ready_events name events ending) \<and>
         (\<not> list_ex (ready_event name) events \<and> ending = None \<longrightarrow>
            wait_for_pod_ready w name namespace timeout =
              ([LoadKubeConfig, WatchOpen namespace timeout,
                Stdout (''Timeout waiting for pod '' @ name @ '' to be ready.'' @ nl)],
               Inr False))"
proof (intro conjI allI impI)
  assume "list_ex (ready_event name) events"
  with assms show "wait_for_pod_ready w name namespace timeout =
              ([LoadKubeConfig, WatchOpen namespace timeout, WatchStop], Inr True)"
    by (simp add: wait_for_pod_ready_eq list_ex_ready_once)
next
  fix pre p post other
  assume a: "events = pre @ p # post \<and> ready_event name p"
  with assms(3) have "ready_once p" by simp
  with a have "pod_is_ready name p" by (simp add: pod_is_ready_once)
  with a show "pod_ready_events name (pre @ p # other) None =
              pod_ready_events name events ending"
    by (simp add: pod_ready_events_eq)
next
  assume "\<not> list_ex (ready_event name) events \<and> ending = None"
  with assms show "wait_for_pod_ready w name namespace timeout =
              ([LoadKubeConfig, WatchOpen namespace timeout,
                Stdout (''Timeout waiting for pod '' @ name @ '' to be ready.'' @ nl)],
               Inr False)"
    by (simp add: wait_for_pod_ready_eq list_ex_ready_once)
qed

text \<open>
  The claim at concrete streams: a ready pod after one that is not, followed by another
  event; and a stream with no ready pod.
\<close>

theorem wait_for_pod_ready_first_ready_witness:
  "wait_for_pod_ready (watching [starting_pod, ready_pod, alpha_pending]) ''tank-0'' ''warnet'' 300 =
     ([LoadKubeConfig, WatchOpen ''warnet'' 300, WatchStop], Inr True) \<and>
   pod_ready_events ''tank-0'' [starting_pod, ready_pod] None =
     pod_ready_events ''tank-0'' [starting_pod, ready_pod, alpha_pending] None \<and>
   wait_for_pod_ready (watching [starting_pod, alpha_pending]) ''tank-0'' ''warnet'' 300 =
     ([LoadKubeConfig, WatchOpen ''warnet'' 300,
       Stdout (''Timeout waiting for pod tank-0 to be ready.'' @ nl)], Inr False)"
proof -
  have a: "load_kube_config (watching evs) = None" for evs
    by (simp add: watching_def calm_def)
  have b: "watch_pods (watching evs) ''warnet'' 300 = (evs, None)" for evs
    by (simp add: watching_def calm_def)
  have o: "ready_once starting_pod" "ready_once ready_pod" "ready_once alpha_pending"
    by (simp_all add: ready_once_def conditions_of_def starting_pod_def ready_pod_def
        alpha_pending_def)
  have r: "ready_event ''tank-0'' ready_pod"
    by (simp add: ready_event_def carries_ready_def conditions_of_def ready_pod_def)
  have n: "\<not> ready_event ''tank-0'' starting_pod" "\<not> ready_event ''tank-0'' alpha_pending"
    by (simp_all add: ready_event_def carries_ready_def conditions_of_def starting_pod_def
        alpha_pending_def)
  have c: "list_all ready_once [starting_pod, ready_pod, alpha_pending]"
    using o by simp
  have d: "list_all ready_once [starting_pod, alpha_pending]"
    using o by simp
  note t1 = wait_for_pod_ready_first_ready [OF a b c, of "''tank-0''"]
  note t2 = wait_for_pod_ready_first_ready [OF a b d, of "''tank-0''"]
  from t1 r have 1: "wait_for_pod_ready (watching [starting_pod, ready_pod, alpha_pending])
      ''tank-0'' ''warnet'' 300 = ([LoadKubeConfig, WatchOpen ''warnet'' 300, WatchStop], Inr True)"
    by simp
  have "[starting_pod, ready_pod, alpha_pending] = [starting_pod] @ ready_pod # [alpha_pending]
          \<and> ready_event ''tank-0'' ready_pod"
    using r by simp
  with t1 have "pod_ready_events ''tank-0'' ([starting_pod] @ ready_pod # []) None =
     pod_ready_events ''tank-0'' [starting_pod, ready_pod, alpha_pending] None"
    by blast
  then have 2: "pod_ready_events ''tank-0'' [starting_pod, ready_pod] None =
     pod_ready_events ''tank-0'' [starting_pod, ready_pod, alpha_pending] None"
    by simp
  from t2 n have 3: "wait_for_pod_ready (watching [starting_pod, alpha_pending]) ''tank-0''
      ''warnet'' 300 = ([LoadKubeConfig, WatchOpen ''warnet'' 300,
       Stdout (''Timeout waiting for pod tank-0 to be ready.'' @ nl)], Inr False)"
    by simp
  from 1 2 3 show ?thesis by simp
qed

lemma ingress_pods_none:
  "\<forall>p \<in> set pods. \<not> sublist ''ingress-nginx-controller'' (metadata_name p) \<Longrightarrow>
     ingress_pods w pods timeout = ([], Inr False)"
  by (induction pods) (simp_all add: io_return_def)

text \<open>
  Claim C4, as amended. With the client built and a watch that ends by its timeout,
  \<open>wait_for_pod_ready\<close> on a name that no event carries opens the watch with its timeout,
  reads it to the end, prints the timeout message and returns \<open>False\<close>; and whenever it
  returns \<open>False\<close> the watch has ended by its timeout and was never stopped early.
  \<open>wait_for_ingress_controller\<close>, when no listed pod has
  \<^verbatim>\<open>ingress-nginx-controller\<close> in its name, returns \<open>False\<close> right after the listing,
  without opening a watch. Both are total functions: they always terminate.
\<close>

theorem readiness_wait_no_match:
  "(load_kube_config w = None \<and> watch_pods w namespace timeout = (events, None) \<and>
    (\<forall>p \<in> set events. metadata_name p \<noteq> name) \<longrightarrow>
      wait_for_pod_ready w name namespace timeout =
        ([LoadKubeConfig, WatchOpen namespace timeout,
          Stdout (''Timeout waiting for pod '' @ name @ '' to be ready.'' @ nl)], Inr False)) \<and>
   (load_kube_config w = None \<and> snd (wait_for_pod_ready w name namespace timeout) = Inr False \<longrightarrow>
      snd (watch_pods w namespace timeout) = None \<and>
      WatchStop \<notin> set (fst (wait_for_pod_ready w name namespace timeout))) \<and>
   (load_kube_config w = None \<and> list_namespaced_pod w (INGRESS_NAMESPACE w) = Inr pods \<and>
    (\<forall>p \<in> set pods. \<not> sublist ''ingress-nginx-controller'' (metadata_name p)) \<longrightarrow>
      wait_for_ingress_controller w timeout =
        ([LoadKubeConfig, ListPods (INGRESS_NAMESPACE w)], Inr False))"
proof (intro conjI impI)
  assume a: "load_kube_config w = None \<and> watch_pods w namespace timeout = (events, None) \<and>
    (\<forall>p \<in> set events. metadata_name p \<noteq> name)"
  then have "\<not> list_ex (pod_is_ready name) events"
    by (auto simp: list_ex_iff pod_is_ready_def)
  with a show "wait_for_pod_ready w name namespace timeout =
        ([LoadKubeConfig, WatchOpen namespace timeout,
          Stdout (''Timeout waiting for pod '' @ name @ '' to be ready.'' @ nl)], Inr False)"
    by (simp add: wait_for_pod_ready_eq)
next
  assume b: "load_kube_config w = None \<and>
    snd (wait_for_pod_ready w name namespace timeout) = Inr False"
  obtain events ending where we: "watch_pods w namespace timeout = (events, ending)"
    by (cases "watch_pods w namespace timeout")
  from b show "snd (watch_pods w namespace timeout) = None"
    by (auto simp: wait_for_pod_ready_eq [OF we] we split: if_splits option.splits)
  from b show "WatchStop \<notin> set (fst (wait_for_pod_ready w name namespace timeout))"
    by (auto simp: wait_for_pod_ready_eq [OF we] we split: if_splits option.splits)
next
  assume c: "load_kube_config w = None \<and> list_namespaced_pod w (INGRESS_NAMESPACE w) = Inr pods \<and>
    (\<forall>p \<in> set pods. \<not> sublist ''ingress-nginx-controller'' (metadata_name p))"
  then show "wait_for_ingress_controller w timeout =
        ([LoadKubeConfig, ListPods (INGRESS_NAMESPACE w)], Inr False)"
    unfolding wait_for_ingress_controller_def get_static_client_def
    by (simp add: ingress_pods_none prod_eq_iff io_simps)
qed

text \<open>
  The three parts at a world whose watch delivers one event, of another pod, and whose
  ingress namespace lists one pod that is not the controller.
\<close>

theorem readiness_wait_no_match_witness:
  "wait_for_pod_ready no_controller ''tank-0'' ''warnet'' 300 =
     ([LoadKubeConfig, WatchOpen ''warnet'' 300,
       Stdout (''Timeout waiting for pod tank-0 to be ready.'' @ nl)], Inr False) \<and>
   snd (watch_pods no_controller ''warnet'' 300) = None \<and>
   WatchStop \<notin> set (fst (wait_for_pod_ready no_controller ''tank-0'' ''warnet'' 300)) \<and>
   wait_for_ingress_controller no_controller 300 =
     ([LoadKubeConfig, ListPods ''ingress''], Inr False)"
proof -
  have a: "load_kube_config no_controller = None"
    by (simp add: no_controller_def watching_def calm_def)
  have b: "watch_pods no_controller ''warnet'' 300 = ([alpha_pending], None)"
    by (simp add: no_controller_def watching_def calm_def)
  have c: "\<forall>p \<in> set [alpha_pending]. metadata_name p \<noteq> ''tank-0''"
    by (simp add: alpha_pending_def)
  have d: "list_namespaced_pod no_controller (INGRESS_NAMESPACE no_controller)
             = Inr [alpha_pending]"
    by (simp add: no_controller_def)
  have e: "\<forall>p \<in> set [alpha_pending].
             \<not> sublist ''ingress-nginx-controller'' (metadata_name p)"
    by (simp add: alpha_pending_def sublist_code)
  have f: "INGRESS_NAMESPACE no_controller = ''ingress''"
    by (simp add: no_controller_def watching_def calm_def)
  note t = readiness_wait_no_match [where w = no_controller and name = "''tank-0''"
      and namespace = "''warnet''" and timeout = 300 and events = "[alpha_pending]"
      and pods = "[alpha_pending]"]
  from t a b c have 1: "wait_for_pod_ready no_controller ''tank-0'' ''warnet'' 300 =
     ([LoadKubeConfig, WatchOpen ''warnet'' 300,
       Stdout (''Timeout waiting for pod tank-0 to be ready.'' @ nl)], Inr False)"
    by simp
  from t a 1 have 2: "snd (watch_pods no_controller ''warnet'' 300) = None \<and>
      WatchStop \<notin> set (fst (wait_for_pod_ready no_controller ''tank-0'' ''warnet'' 300))"
    by simp
  from t a d e f have 3: "wait_for_ingress_controller no_controller 300 =
     ([LoadKubeConfig, ListPods ''ingress''], Inr False)"
    by simp
  from 1 2 3 show ?thesis by simp
qed

text \<open>
  Claim C4 as stated fails for \<open>wait_for_ingress_controller\<close>: with no matching pod it
  returns \<open>False\<close> without any watch, so no timeout budget is spent.
\<close>

theorem ingress_no_wait_counterexample:
  "wait_for_ingress_controller calm 300 = ([LoadKubeConfig, ListPods ''ingress''], Inr False)"
  by (simp add: wait_for_ingress_controller_def get_static_client_def calm_def
      prod_eq_iff io_simps)


lemma init_statuses_eq:
  "init_statuses pod_name namespace quiet statuses =
     (if list_ex (\<lambda>s. cs_state s = StateRunning) statuses
      then ((if quiet then [] else [Stdout (init_ready_message pod_name namespace @ nl)])
              @ [WatchStop], Inr (Some True))
      else ([], Inr None))"
  by (induction statuses) (simp_all add: io_pairs)

lemma init_events_eq:
  "init_events pod_name namespace quiet events ending =
     (if list_ex (init_is_running pod_name) events
      then ((if quiet then [] else [Stdout (init_ready_message pod_name namespace @ nl)])
              @ [WatchStop], Inr (Some True))
      else case ending of Some msg \<Rightarrow> ([], Inl (Exception msg)) | None \<Rightarrow> ([], Inr None))"
  by (induction events)
     (auto simp: init_is_running_def init_statuses_of_def init_statuses_eq io_pairs
           split: option.splits)

text \<open>
  Claim C8, as amended. With the namespace resolved and the client built, when the watch
  ends by its timeout and no event of the named pod shows an init container in the running
  state, \<open>wait_for_init\<close> returns \<open>False\<close> without raising; it prints the timeout message
  first unless \<open>quiet\<close> is set. An event of the named pod whose init container statuses are
  missing or empty is skipped: the loop runs as if the event had not been there.
\<close>

theorem wait_for_init_timeout:
  assumes "get_default_namespace_or w namespace = (t0, Inr ns)"
    and "load_kube_config w = None"
    and "watch_pods w ns timeout = (events, None)"
    and "\<not> list_ex (init_is_running pod_name) events"
  shows "wait_for_init w pod_name timeout namespace quiet =
           (t0 @ [LoadKubeConfig, WatchOpen ns timeout] @
              (if quiet then [] else [Stdout (init_timeout_message pod_name ns @ nl)]),
            Inr False) \<and>
         (\<forall>p pre post ending.
            metadata_name p = pod_name \<and> init_statuses_of p = [] \<longrightarrow>
              init_events pod_name ns quiet (pre @ p # post) ending =
              init_events pod_name ns quiet (pre @ post) ending)"
proof
  show "wait_for_init w pod_name timeout namespace quiet =
           (t0 @ [LoadKubeConfig, WatchOpen ns timeout] @
              (if quiet then [] else [Stdout (init_timeout_message pod_name ns @ nl)]),
            Inr False)"
    using assms
    unfolding wait_for_init_def get_static_client_def
    by (simp add: io_pairs init_events_eq)
  show "\<forall>p pre post ending.
            metadata_name p = pod_name \<and> init_statuses_of p = [] \<longrightarrow>
              init_events pod_name ns quiet (pre @ p # post) ending =
              init_events pod_name ns quiet (pre @ post) ending"
    by (simp add: init_events_eq init_is_running_def)
qed

text \<open>
  The scenario of pod \<^verbatim>\<open>alpha\<close> with no init container statuses yet and a timeout of 2.
\<close>

theorem wait_for_init_timeout_witness:
  "wait_for_init (watching [alpha_pending]) ''alpha'' 2 (Some ''warnet'') False =
     ([LoadKubeConfig, WatchOpen ''warnet'' 2,
       Stdout (''Timeout waiting for initContainer in alpha (warnet) to be ready.'' @ nl)],
      Inr False) \<and>
   init_events ''alpha'' ''warnet'' False [alpha_pending] None =
     init_events ''alpha'' ''warnet'' False [] None"
proof -
  have a: "get_default_namespace_or (watching [alpha_pending]) (Some ''warnet'') = ([], Inr ''warnet'')"
    by (simp add: get_default_namespace_or_def io_return_def)
  have b: "load_kube_config (watching [alpha_pending]) = None"
    by (simp add: watching_def calm_def)
  have c: "watch_pods (watching [alpha_pending]) ''warnet'' 2 = ([alpha_pending], None)"
    by (simp add: watching_def calm_def)
  have d: "\<not> list_ex (init_is_running ''alpha'') [alpha_pending]"
    by (simp add: init_is_running_def init_statuses_of_def alpha_pending_def)
  have e: "metadata_name alpha_pending = ''alpha'' \<and> init_statuses_of alpha_pending = []"
    by (simp add: init_statuses_of_def alpha_pending_def)
  note t = wait_for_init_timeout [OF a b c d, of False]
  from t have 1: "wait_for_init (watching [alpha_pending]) ''alpha'' 2 (Some ''warnet'') False =
     ([LoadKubeConfig, WatchOpen ''warnet'' 2,
       Stdout (''Timeout waiting for initContainer in alpha (warnet) to be ready.'' @ nl)],
      Inr False)"
    by (simp add: init_timeout_message_def)
  from t e have "init_events ''alpha'' ''warnet'' False ([] @ alpha_pending # []) None =
     init_events ''alpha'' ''warnet'' False ([] @ []) None"
    by blast
  with 1 show ?thesis by simp
qed

text \<open>
  Claim C8 as stated fails when \<open>quiet\<close> is set: \<open>False\<close> is returned and no timeout
  message is printed.
\<close>

theorem wait_for_init_quiet_counterexample:
  "wait_for_init (watching [alpha_pending]) ''alpha'' 2 (Some ''warnet'') True =
     ([LoadKubeConfig, WatchOpen ''warnet'' 2], Inr False)"
  by (simp add: wait_for_init_def get_default_namespace_or_def get_static_client_def
      watching_def calm_def alpha_pending_def io_pairs)

section \<open>\<^verbatim>\<open>snapshot_bitcoin_datadir\<close>: what leaves the \<^verbatim>\<open>try\<close> block\<close>

lemma no_exit_iff: "no_exit m \<longleftrightarrow> (\<forall>c. snd m \<noteq> Inl (SystemExit c))"
  by (auto simp: no_exit_def split: sum.splits exn.splits)

lemma no_exit_prims [simp]:
  "no_exit (io_return x)" "no_exit (act a)" "no_exit (py_print s)"
  "no_exit (io_raise (Exception msg))"
  by (simp_all add: no_exit_def)

lemma no_exit_bind:
  "no_exit m \<Longrightarrow> (\<And>x. no_exit (f x)) \<Longrightarrow> no_exit (io_bind m f)"
  by (auto simp: no_exit_iff snd_io_bind split: sum.splits)

lemma no_exit_if [simp]:
  "no_exit a \<Longrightarrow> no_exit b \<Longrightarrow> no_exit (if c then a else b)"
  by simp

lemma no_exit_run_forever [simp]: "no_exit (run_forever ps)"
  by (induction ps rule: run_forever.induct) simp_all

lemma no_exit_print_lines [simp]: "no_exit (print_lines ls)"
  by (induction ls) (simp_all add: no_exit_bind)

lemma no_exit_collect [simp]: "no_exit (collect_file_list ps fl)"
  by (induction ps fl rule: collect_file_list.induct) (simp_all add: no_exit_bind)

lemma no_exit_drain_tar [simp]: "no_exit (drain_tar ps)"
  by (induction ps rule: drain_tar.induct) (simp_all add: no_exit_bind)

lemma no_exit_relpaths [simp]: "no_exit (relpaths w start fl)"
  by (induction fl) (simp_all add: no_exit_bind relpath_def)

lemma no_exit_stream_open [simp]: "no_exit (stream_open w p n cmd c i)"
  unfolding stream_open_def by (auto intro!: no_exit_bind split: exec_script.splits)

lemma no_exit_stream_run [simp]: "no_exit (stream_run w p n cmd c i)"
  unfolding stream_run_def by (auto intro!: no_exit_bind split: exec_script.splits)

lemma no_exit_stream_command [simp]: "no_exit (stream_command w cmd)"
  unfolding stream_command_def by (auto intro!: no_exit_bind split: prod.splits)

lemma no_exit_read_pod [simp]: "no_exit (read_pod w p n)"
  unfolding read_pod_def by (auto intro!: no_exit_bind split: option.splits)

lemma no_exit_tar_command [simp]: "no_exit (tar_command w chain fl)"
  unfolding tar_command_def by (auto intro!: no_exit_bind)

lemma no_exit_snapshot_archive: "no_exit (snapshot_archive w p chain lp n fl)"
  unfolding snapshot_archive_def close_session_def
  by (intro no_exit_bind no_exit_if) simp_all

lemma no_exit_snapshot_try: "no_exit (snapshot_try w p chain lp filters n)"
  unfolding snapshot_try_def close_session_def
  by (intro no_exit_bind no_exit_if no_exit_snapshot_archive) simp_all

lemma snapshot_unfold:
  "snapshot_bitcoin_datadir w pod_name chain local_path filters namespace =
     io_bind (open_client w namespace) (\<lambda>ns.
       try_except (snapshot_try w pod_name chain local_path filters ns)
         (\<lambda>e. py_print (''An error occurred: '' @ e)))"
  unfolding snapshot_bitcoin_datadir_def open_client_def get_static_client_def
  by (simp add: prod_eq_iff io_simps split: sum.splits option.splits)


section \<open>The traces of the snapshot steps\<close>

lemma print_lines_eq: "print_lines ls = (map Stdout ls, Inr ())"
  by (induction ls) (simp_all add: io_pairs)

lemma stream_command_eq:
  "stream_command w cmd =
     (Popen cmd # map Stdout (fst (popen_lines w cmd)),
      if snd (popen_lines w cmd) \<noteq> 0
      then Inl (Exception (concat (fst (popen_lines w cmd)))) else Inr True)"
  unfolding stream_command_def
  by (simp add: io_pairs print_lines_eq split: prod.splits)

lemma py_strip_Nil [simp]: "py_strip [] = []"
  by (simp add: py_strip_def)

lemma relpaths_eq:
  "relpaths w start fl =
     ([], Inr (map (\<lambda>f. relpath_of w f start) (filter (\<lambda>f. py_strip f \<noteq> []) fl)))"
  by (induction fl) (auto simp: io_pairs relpath_def)

lemma tar_command_eq:
  "tar_command w chain fl =
     ([], Inr ([''tar'', ''-czf'', ''/tmp/bitcoin_data.tar.gz'', ''-C'', base_dir chain] @
               map (\<lambda>f. relpath_of w f (base_dir chain)) (filter (\<lambda>f. py_strip f \<noteq> []) fl)))"
  unfolding tar_command_def by (simp add: relpaths_eq io_pairs)

lemma prints_collect: "list_all is_print (fst (collect_file_list ps fl))"
  by (induction ps fl rule: collect_file_list.induct)
     (simp_all add: fst_io_bind is_print_def)

lemma prints_drain_tar: "list_all is_print (fst (drain_tar ps))"
  by (induction ps rule: drain_tar.induct)
     (simp_all add: fst_io_bind is_print_def)

lemma drain_tar_result:
  "snd (drain_tar ps) = Inr () \<or> (\<exists>m. snd (drain_tar ps) = Inl (Exception m))"
  by (induction ps rule: drain_tar.induct) (simp_all add: snd_io_bind)

lemma fst_stream_run [simp]:
  "fst (stream_run w p n cmd c i) = [ExecOpen p n cmd c i True]"
  unfolding stream_run_def by (simp add: fst_io_bind split: exec_script.splits)

lemma snd_stream_run:
  "snd (stream_run w p n cmd c i) =
     (case pod_exec w p n cmd c of
        OpenFails msg \<Rightarrow> Inl (Exception msg)
      | Session werr polls \<Rightarrow> snd (run_forever polls))"
  unfolding stream_run_def by (simp add: snd_io_bind split: exec_script.splits)

lemma not_print_in_prints:
  "list_all is_print t \<Longrightarrow> \<not> is_print a \<Longrightarrow> a \<notin> set t"
  by (auto simp: list_all_iff)

lemma exec_not_print [simp]: "\<not> is_print (ExecOpen p n cmd c i pl)"
  by (simp add: is_print_def)

lemma snapshot_archive_cleanup_iff:
  "(ExecOpen pod_name namespace cleanup_command None False True
      \<in> set (fst (snapshot_archive w pod_name chain local_path namespace file_list)))
   = archive_copied w pod_name chain local_path namespace file_list"
proof -
  let ?cmd = "[''tar'', ''-czf'', ''/tmp/bitcoin_data.tar.gz'', ''-C'', base_dir chain] @
               map (\<lambda>f. relpath_of w f (base_dir chain)) (filter (\<lambda>f. py_strip f \<noteq> []) file_list)"
  let ?cl = "ExecOpen pod_name namespace cleanup_command None False True"
  have ne: "?cmd \<noteq> cleanup_command" by (simp add: cleanup_command_def)
  show ?thesis
  proof (cases "pod_exec w pod_name namespace ?cmd None")
    case (OpenFails msg)
    then show ?thesis
      using ne
      unfolding snapshot_archive_def archive_copied_def stream_open_def
      by (simp add: tar_command_eq io_pairs)
  next
    case (Session werr polls)
    have np: "?cl \<notin> set (fst (drain_tar polls))"
      by (rule not_print_in_prints [OF prints_drain_tar]) simp
    from drain_tar_result [of polls] show ?thesis
    proof
      assume ok: "snd (drain_tar polls) = Inr ()"
      show ?thesis
        using ne np Session ok
        unfolding snapshot_archive_def archive_copied_def stream_open_def close_session_def
        by (auto simp: tar_command_eq io_pairs io_simps stream_command_eq split: sum.splits)
    next
      assume "\<exists>m. snd (drain_tar polls) = Inl (Exception m)"
      then obtain m where bad: "snd (drain_tar polls) = Inl (Exception m)" ..
      show ?thesis
        using ne np Session bad
        unfolding snapshot_archive_def archive_copied_def stream_open_def close_session_def
        by (simp add: tar_command_eq io_pairs io_simps)
    qed
  qed
qed

lemma snapshot_archive_cleanup_result:
  assumes "archive_copied w pod_name chain local_path namespace file_list"
  shows "if cleanup_ok w pod_name namespace
         then snd (snapshot_archive w pod_name chain local_path namespace file_list) = Inr ()
         else \<exists>m. snd (snapshot_archive w pod_name chain local_path namespace file_list)
                     = Inl (Exception m)"
proof -
  let ?cmd = "[''tar'', ''-czf'', ''/tmp/bitcoin_data.tar.gz'', ''-C'', base_dir chain] @
               map (\<lambda>f. relpath_of w f (base_dir chain)) (filter (\<lambda>f. py_strip f \<noteq> []) file_list)"
  from assms obtain werr polls where
    s: "pod_exec w pod_name namespace ?cmd None = Session werr polls"
    and d: "snd (drain_tar polls) = Inr ()"
    and c: "snd (popen_lines w (copy_command w namespace pod_name local_path)) = 0"
    by (auto simp: archive_copied_def tar_command_eq split: exec_script.splits)
  show ?thesis
  proof (cases "pod_exec w pod_name namespace cleanup_command None")
    case (OpenFails msg)
    then show ?thesis
      using s d c
      unfolding snapshot_archive_def stream_open_def close_session_def cleanup_ok_def
      by (simp add: tar_command_eq io_pairs io_simps stream_command_eq snd_stream_run)
  next
    case (Session werr' polls')
    with run_forever_result [of polls'] show ?thesis
      using s d c
      unfolding snapshot_archive_def stream_open_def close_session_def cleanup_ok_def
      by (auto simp: tar_command_eq io_pairs io_simps stream_command_eq snd_stream_run)
  qed
qed

lemma try_except_pair:
  "try_except (t, Inr x) h = (t, Inr x)"
  "try_except (t, Inl (Exception msg)) h = (t @ fst (h msg), snd (h msg))"
  "try_except (t, Inl (SystemExit c)) h = (t, Inl (SystemExit c))"
  by (simp_all add: try_except_def split: prod.splits)

lemma snapshot_try_after_find:
  assumes "read_namespaced_pod w pod_name ns = None"
    and "pod_exec w pod_name ns (find_command chain filters) None = Session werr polls"
    and "collect_file_list polls [] = (t1, Inr file_list)"
  shows "snapshot_try w pod_name chain local_path filters ns =
     ([ReadPod pod_name ns, ExecOpen pod_name ns (find_command chain filters) None False False]
        @ t1 @ [CloseSession]
        @ fst (if file_list = [] then py_print ''No matching files or directories found.''
               else snapshot_archive w pod_name chain local_path ns file_list),
      snd (if file_list = [] then py_print ''No matching files or directories found.''
           else snapshot_archive w pod_name chain local_path ns file_list))"
  using assms
  unfolding snapshot_try_def read_pod_def stream_open_def close_session_def
  by (simp add: io_pairs)

lemma open_client_pair:
  assumes "get_default_namespace_or w namespace = (t0, Inr ns)"
    and "load_kube_config w = None"
  shows "open_client w namespace = (t0 @ [LoadKubeConfig], Inr ns)"
  using assms unfolding open_client_def get_static_client_def
  by (simp add: io_pairs)

lemma snapshot_returns:
  "snd (snapshot_bitcoin_datadir w pod_name chain local_path filters namespace) =
     (case snd (open_client w namespace) of
        Inl e \<Rightarrow> Inl e
      | Inr ns \<Rightarrow> Inr ())"
proof (cases "snd (open_client w namespace)")
  case (Inl e)
  then show ?thesis by (simp add: snapshot_unfold io_simps)
next
  case (Inr ns)
  have "no_exit (snapshot_try w pod_name chain local_path filters ns)"
    by (rule no_exit_snapshot_try)
  then have "snd (try_except (snapshot_try w pod_name chain local_path filters ns)
                    (\<lambda>e. py_print (''An error occurred: '' @ e))) = Inr ()"
    by (auto simp: no_exit_iff snd_try_except split: sum.splits exn.splits)
  with Inr show ?thesis by (simp add: snapshot_unfold io_simps)
qed

lemma snapshot_trace:
  assumes "snd (open_client w namespace) = Inr ns"
  shows "fst (snapshot_bitcoin_datadir w pod_name chain local_path filters namespace) =
     fst (open_client w namespace) @ fst (snapshot_try w pod_name chain local_path filters ns) @
     (case snd (snapshot_try w pod_name chain local_path filters ns) of
        Inl (Exception msg) \<Rightarrow> [Stdout (''An error occurred: '' @ msg @ nl)]
      | _ \<Rightarrow> [])"
  using assms
  by (simp add: snapshot_unfold io_simps split: sum.splits exn.splits)

lemma foldl_extend:
  "foldl (\<lambda>cmd f. cmd @ g f) init xs = init @ concat (map g xs)"
  by (induction xs arbitrary: init) simp_all

lemma find_command_eq:
  "find_command chain filters =
     (case filters of
        Some (f0 # rest) \<Rightarrow>
          [''find'', base_dir chain, ''('', ''-type'', ''f'', ''-o'', ''-type'', ''d'', '')'',
           ''('', ''-name'', f0]
          @ concat (map (\<lambda>f. [''-o'', ''-name'', f]) rest) @ ['')'']
      | _ \<Rightarrow> [''find'', base_dir chain])"
  unfolding find_command_def
  by (simp add: foldl_extend split: option.splits list.splits)

lemma find_command_not_cleanup: "find_command chain filters \<noteq> cleanup_command"
  by (simp add: find_command_eq cleanup_command_def split: option.splits list.splits)


lemmas path_defs =
  relpath_def relpath_of_def rel_list_def path_comps_def abspath_def normpath_def isabs_def
  path_join_def path_join2_def suffix_to_prefix py_strip_def py_isspace_def nl_def Let_def

section \<open>\<^verbatim>\<open>snapshot_bitcoin_datadir\<close>: the empty selection\<close>

text \<open>
  Claim C6. When the lookups before it succeed and the file list read from the
  \<^verbatim>\<open>find\<close> session is empty, the whole run is: the lookups, the \<^verbatim>\<open>find\<close> session,
  whatever its stderr made the loop print, the close of the session, and the message
  \<^verbatim>\<open>No matching files or directories found.\<close> The function returns normally, the error
  handler prints nothing, and no archive, copy or cleanup step is run.
\<close>

theorem snapshot_empty_selection:
  assumes "get_default_namespace_or w namespace = (t0, Inr ns)"
    and "load_kube_config w = None"
    and "read_namespaced_pod w pod_name ns = None"
    and "pod_exec w pod_name ns (find_command chain filters) None = Session werr polls"
    and "collect_file_list polls [] = (t1, Inr [])"
  shows "snapshot_bitcoin_datadir w pod_name chain local_path filters namespace =
           (t0 @ [LoadKubeConfig, ReadPod pod_name ns,
                  ExecOpen pod_name ns (find_command chain filters) None False False]
               @ t1
               @ [CloseSession, Stdout (''No matching files or directories found.'' @ nl)],
            Inr ()) \<and>
         list_all is_print t1"
proof
  have oc: "open_client w namespace = (t0 @ [LoadKubeConfig], Inr ns)"
    using assms(1,2) by (rule open_client_pair)
  have st: "snapshot_try w pod_name chain local_path filters ns =
     ([ReadPod pod_name ns, ExecOpen pod_name ns (find_command chain filters) None False False]
        @ t1 @ [CloseSession, Stdout (''No matching files or directories found.'' @ nl)], Inr ())"
    using snapshot_try_after_find [OF assms(3,4,5), where local_path = local_path] by simp
  show "snapshot_bitcoin_datadir w pod_name chain local_path filters namespace =
           (t0 @ [LoadKubeConfig, ReadPod pod_name ns,
                  ExecOpen pod_name ns (find_command chain filters) None False False]
               @ t1
               @ [CloseSession, Stdout (''No matching files or directories found.'' @ nl)],
            Inr ())"
    by (simp add: snapshot_unfold oc st io_bind_pair try_except_pair)
  from prints_collect [of polls "[]"] assms(5) show "list_all is_print t1" by simp
qed

text \<open>
  The claim at a cluster whose \<^verbatim>\<open>find\<close> session prints nothing.
\<close>

theorem snapshot_empty_selection_witness:
  "snapshot_bitcoin_datadir calm ''tank-0'' ''regtest'' ''./'' (Some [''*.dat'']) (Some ''warnet'') =
     ([LoadKubeConfig,
       ReadPod ''tank-0'' ''warnet'',
       ExecOpen ''tank-0'' ''warnet''
         [''find'', ''/root/.bitcoin/regtest'', ''('', ''-type'', ''f'', ''-o'', ''-type'', ''d'',
          '')'', ''('', ''-name'', ''*.dat'', '')''] None False False,
       CloseSession,
       Stdout (''No matching files or directories found.'' @ nl)],
      Inr ())"
proof -
  have a: "get_default_namespace_or calm (Some ''warnet'') = ([], Inr ''warnet'')"
    by (simp add: get_default_namespace_or_def io_return_def)
  have b: "load_kube_config calm = None" by (simp add: calm_def)
  have c: "read_namespaced_pod calm ''tank-0'' ''warnet'' = None" by (simp add: calm_def)
  have d: "pod_exec calm ''tank-0'' ''warnet'' (find_command ''regtest'' (Some [''*.dat''])) None
             = Session None []"
    by (simp add: calm_def)
  have e: "collect_file_list [] [] = ([], Inr [])" by (simp add: io_return_def)
  from snapshot_empty_selection [OF a b c d e, of "''./''"]
  show ?thesis by (simp add: find_command_def base_dir_def)
qed

section \<open>\<^verbatim>\<open>snapshot_bitcoin_datadir\<close>: the cleanup\<close>

text \<open>
  Claim C2, as amended. Once the \<^verbatim>\<open>find\<close> step has produced a non-empty file list, the
  cleanup command \<^verbatim>\<open>rm /tmp/bitcoin_data.tar.gz\<close> is attempted exactly when the archive
  session opened and ran to its end and the copy exited with code 0: it is not attempted
  after a failed archive or copy step. A failure of the cleanup itself goes to the same
  handler as every other error, which prints \<^verbatim>\<open>An error occurred: ...\<close> as the last line;
  the function returns \<open>None\<close> in every case.
\<close>

theorem snapshot_cleanup_after_copy:
  assumes "get_default_namespace_or w namespace = (t0, Inr ns)"
    and "load_kube_config w = None"
    and "read_namespaced_pod w pod_name ns = None"
    and "pod_exec w pod_name ns (find_command chain filters) None = Session werr polls"
    and "collect_file_list polls [] = (t1, Inr file_list)"
    and "file_list \<noteq> []"
  shows "(ExecOpen pod_name ns cleanup_command None False True
            \<in> set (fst (snapshot_bitcoin_datadir w pod_name chain local_path filters namespace)))
           = archive_copied w pod_name chain local_path ns file_list \<and>
         (archive_copied w pod_name chain local_path ns file_list \<and>
          \<not> cleanup_ok w pod_name ns \<longrightarrow>
            (\<exists>msg. last (fst (snapshot_bitcoin_datadir w pod_name chain local_path filters
                                namespace))
                     = Stdout (''An error occurred: '' @ msg @ nl))) \<and>
         snd (snapshot_bitcoin_datadir w pod_name chain local_path filters namespace) = Inr ()"
proof -
  let ?cl = "ExecOpen pod_name ns cleanup_command None False True"
  let ?arch = "snapshot_archive w pod_name chain local_path ns file_list"
  have oc: "open_client w namespace = (t0 @ [LoadKubeConfig], Inr ns)"
    using assms(1,2) by (rule open_client_pair)
  have st: "snapshot_try w pod_name chain local_path filters ns =
     ([ReadPod pod_name ns, ExecOpen pod_name ns (find_command chain filters) None False False]
        @ t1 @ [CloseSession] @ fst ?arch, snd ?arch)"
    using snapshot_try_after_find [OF assms(3,4,5), where local_path = local_path] assms(6) by simp
  have tr: "fst (snapshot_bitcoin_datadir w pod_name chain local_path filters namespace) =
     t0 @ [LoadKubeConfig, ReadPod pod_name ns,
           ExecOpen pod_name ns (find_command chain filters) None False False]
        @ t1 @ [CloseSession] @ fst ?arch @
     (case snd ?arch of
        Inl (Exception msg) \<Rightarrow> [Stdout (''An error occurred: '' @ msg @ nl)]
      | _ \<Rightarrow> [])"
    using snapshot_trace [of w namespace ns pod_name chain local_path filters]
    by (simp add: oc st)
  have t0: "?cl \<notin> set t0"
    using get_default_namespace_or_ok_trace [of w namespace ns] assms(1)
    by (auto split: if_splits)
  have t1: "?cl \<notin> set t1"
    using prints_collect [of polls "[]"] assms(5)
    by (auto simp: list_all_iff)
  have 1: "(?cl \<in> set (fst (snapshot_bitcoin_datadir w pod_name chain local_path filters
                               namespace)))
           = archive_copied w pod_name chain local_path ns file_list"
    using t0 t1 find_command_not_cleanup [of chain filters]
      snapshot_archive_cleanup_iff [of pod_name ns w chain local_path file_list]
    by (auto simp: tr split: sum.splits exn.splits)
  have 2: "archive_copied w pod_name chain local_path ns file_list \<and>
          \<not> cleanup_ok w pod_name ns \<longrightarrow>
            (\<exists>msg. last (fst (snapshot_bitcoin_datadir w pod_name chain local_path filters
                                namespace))
                     = Stdout (''An error occurred: '' @ msg @ nl))"
  proof
    assume a: "archive_copied w pod_name chain local_path ns file_list \<and>
          \<not> cleanup_ok w pod_name ns"
    with snapshot_archive_cleanup_result [of w pod_name chain local_path ns file_list]
    obtain msg where "snd ?arch = Inl (Exception msg)" by auto
    then have "last (fst (snapshot_bitcoin_datadir w pod_name chain local_path filters
                                namespace))
                     = Stdout (''An error occurred: '' @ msg @ nl)"
      by (simp add: tr)
    then show "\<exists>msg. last (fst (snapshot_bitcoin_datadir w pod_name chain local_path filters
                                namespace))
                     = Stdout (''An error occurred: '' @ msg @ nl)" ..
  qed
  have 3: "snd (snapshot_bitcoin_datadir w pod_name chain local_path filters namespace) = Inr ()"
    by (simp add: snapshot_returns oc)
  from 1 2 3 show ?thesis by blast
qed

text \<open>
  The amended claim at a run whose archive and copy succeed and whose cleanup session
  cannot be opened.
\<close>

theorem snapshot_cleanup_after_copy_witness:
  "ExecOpen ''tank-0'' ''warnet'' [''rm'', ''/tmp/bitcoin_data.tar.gz''] None False True
     \<in> set (fst (snapshot_bitcoin_datadir cleanup_fails ''tank-0'' ''regtest'' ''./'' None
                    (Some ''warnet''))) \<and>
   last (fst (snapshot_bitcoin_datadir cleanup_fails ''tank-0'' ''regtest'' ''./'' None
                (Some ''warnet'')))
     = Stdout (''An error occurred: Handshake status 500'' @ nl) \<and>
   snd (snapshot_bitcoin_datadir cleanup_fails ''tank-0'' ''regtest'' ''./'' None
          (Some ''warnet'')) = Inr ()"
proof -
  let ?fl = "[''/root/.bitcoin/regtest/peers.dat'']"
  have a: "get_default_namespace_or cleanup_fails (Some ''warnet'') = ([], Inr ''warnet'')"
    by (simp add: get_default_namespace_or_def io_return_def)
  have b: "load_kube_config cleanup_fails = None"
    by (simp add: cleanup_fails_def calm_def)
  have c: "read_namespaced_pod cleanup_fails ''tank-0'' ''warnet'' = None"
    by (simp add: cleanup_fails_def calm_def)
  have d: "pod_exec cleanup_fails ''tank-0'' ''warnet'' (find_command ''regtest'' None) None
             = Session None [PollData (''/root/.bitcoin/regtest/peers.dat'' @ nl) []]"
    by (simp add: cleanup_fails_def find_command_def)
  have e: "collect_file_list [PollData (''/root/.bitcoin/regtest/peers.dat'' @ nl) []] []
             = ([], Inr ?fl)"
    by (simp add: io_pairs path_defs)
  have f: "?fl \<noteq> []" by simp
  have g: "archive_copied cleanup_fails ''tank-0'' ''regtest'' ''./'' ''warnet'' ?fl"
    by (simp add: archive_copied_def tar_command_eq cleanup_fails_def calm_def io_pairs)
  have h: "\<not> cleanup_ok cleanup_fails ''tank-0'' ''warnet''"
    by (simp add: cleanup_ok_def cleanup_fails_def cleanup_command_def)
  have i: "snd (snapshot_archive cleanup_fails ''tank-0'' ''regtest'' ''./'' ''warnet'' ?fl)
             = Inl (Exception ''Handshake status 500'')"
    by (simp add: snapshot_archive_def tar_command_eq stream_open_def close_session_def
        stream_command_eq snd_stream_run cleanup_command_def cleanup_fails_def calm_def
        io_simps)
  note t = snapshot_cleanup_after_copy [OF a b c d e f, of "''./''"]
  from t g have 1: "ExecOpen ''tank-0'' ''warnet'' cleanup_command None False True
     \<in> set (fst (snapshot_bitcoin_datadir cleanup_fails ''tank-0'' ''regtest'' ''./'' None
                    (Some ''warnet'')))" by blast
  from t have 3: "snd (snapshot_bitcoin_datadir cleanup_fails ''tank-0'' ''regtest'' ''./'' None
          (Some ''warnet'')) = Inr ()" by blast
  from t g h obtain msg where 2: "last (fst (snapshot_bitcoin_datadir cleanup_fails ''tank-0''
      ''regtest'' ''./'' None (Some ''warnet''))) = Stdout (''An error occurred: '' @ msg @ nl)"
    by blast
  have 4: "last (fst (snapshot_bitcoin_datadir cleanup_fails ''tank-0''
      ''regtest'' ''./'' None (Some ''warnet'')))
        = Stdout (''An error occurred: Handshake status 500'' @ nl)"
    using snapshot_trace [of cleanup_fails "Some ''warnet''" "''warnet''" "''tank-0''"
        "''regtest''" "''./''" None]
      snapshot_try_after_find [OF c d e, where local_path = "''./''"] open_client_pair [OF a b] i
    by simp
  from 1 4 3 show ?thesis by (simp add: cleanup_command_def)
qed

text \<open>
  Claim C2 as stated fails: when \<^verbatim>\<open>kubectl cp\<close> exits with code 1 the run ends in the
  error handler and no cleanup command is sent; the remote archive stays.
\<close>

theorem snapshot_copy_failure_counterexample:
  "snapshot_bitcoin_datadir copy_fails ''tank-0'' ''regtest'' ''./'' (Some [''*.dat''])
     (Some ''warnet'') =
   ([LoadKubeConfig,
     ReadPod ''tank-0'' ''warnet'',
     ExecOpen ''tank-0'' ''warnet''
       [''find'', ''/root/.bitcoin/regtest'', ''('', ''-type'', ''f'', ''-o'', ''-type'', ''d'',
        '')'', ''('', ''-name'', ''*.dat'', '')''] None False False,
     CloseSession,
     ExecOpen ''tank-0'' ''warnet''
       [''tar'', ''-czf'', ''/tmp/bitcoin_data.tar.gz'', ''-C'', ''/root/.bitcoin/regtest'',
        ''peers.dat''] None False False,
     CloseSession,
     Popen ''kubectl cp warnet/tank-0:/tmp/bitcoin_data.tar.gz tank-0_bitcoin_data.tar.gz'',
     Stdout (''error: unexpected EOF'' @ nl),
     Stdout (''An error occurred: error: unexpected EOF'' @ nl @ nl)],
    Inr ())"
proof -
  let ?fl = "[''/root/.bitcoin/regtest/peers.dat'']"
  have a: "open_client copy_fails (Some ''warnet'') = ([LoadKubeConfig], Inr ''warnet'')"
    by (simp add: open_client_def get_default_namespace_or_def get_static_client_def
        copy_fails_def found_def calm_def io_pairs)
  have c: "read_namespaced_pod copy_fails ''tank-0'' ''warnet'' = None"
    by (simp add: copy_fails_def found_def calm_def)
  have fc: "find_command ''regtest'' (Some [''*.dat'']) =
      [''find'', ''/root/.bitcoin/regtest'', ''('', ''-type'', ''f'', ''-o'', ''-type'', ''d'',
        '')'', ''('', ''-name'', ''*.dat'', '')'']"
    by (simp add: find_command_def base_dir_def)
  have d: "pod_exec copy_fails ''tank-0'' ''warnet'' (find_command ''regtest'' (Some [''*.dat'']))
             None = Session None [PollData (''/root/.bitcoin/regtest/peers.dat'' @ nl) []]"
    by (simp add: fc copy_fails_def found_def)
  have e: "collect_file_list [PollData (''/root/.bitcoin/regtest/peers.dat'' @ nl) []] []
             = ([], Inr ?fl)"
    by (simp add: io_pairs py_strip_def py_isspace_def nl_def)
  have r: "relpath_of copy_fails ''/root/.bitcoin/regtest/peers.dat'' ''/root/.bitcoin/regtest''
             = ''peers.dat''"
    by (simp add: path_defs)
  have tc: "tar_command copy_fails ''regtest'' ?fl =
      ([], Inr [''tar'', ''-czf'', ''/tmp/bitcoin_data.tar.gz'', ''-C'', ''/root/.bitcoin/regtest'',
                ''peers.dat''])"
    by (simp add: tar_command_eq base_dir_def r py_strip_def py_isspace_def)
  have te: "pod_exec copy_fails ''tank-0'' ''warnet''
      [''tar'', ''-czf'', ''/tmp/bitcoin_data.tar.gz'', ''-C'', ''/root/.bitcoin/regtest'',
       ''peers.dat''] None = Session None []"
    by (simp add: copy_fails_def found_def)
  have cc: "copy_command copy_fails ''warnet'' ''tank-0'' ''./'' =
      ''kubectl cp warnet/tank-0:/tmp/bitcoin_data.tar.gz tank-0_bitcoin_data.tar.gz''"
    by (simp add: copy_command_def local_file_path_def copy_fails_def found_def calm_def
        pure_posix_path_def path_join2_def suffix_to_prefix)
  have pl: "popen_lines copy_fails c = ([''error: unexpected EOF'' @ nl], 1)" for c
    by (simp add: copy_fails_def)
  have ar: "snapshot_archive copy_fails ''tank-0'' ''regtest'' ''./'' ''warnet'' ?fl =
      ([ExecOpen ''tank-0'' ''warnet''
          [''tar'', ''-czf'', ''/tmp/bitcoin_data.tar.gz'', ''-C'', ''/root/.bitcoin/regtest'',
           ''peers.dat''] None False False,
        CloseSession,
        Popen ''kubectl cp warnet/tank-0:/tmp/bitcoin_data.tar.gz tank-0_bitcoin_data.tar.gz'',
        Stdout (''error: unexpected EOF'' @ nl)],
       Inl (Exception (''error: unexpected EOF'' @ nl)))"
    unfolding snapshot_archive_def tc stream_open_def close_session_def
    by (simp add: io_pairs te stream_command_eq cc pl)
  have st: "snapshot_try copy_fails ''tank-0'' ''regtest'' ''./'' (Some [''*.dat'']) ''warnet'' =
      ([ReadPod ''tank-0'' ''warnet'',
        ExecOpen ''tank-0'' ''warnet'' (find_command ''regtest'' (Some [''*.dat''])) None False False,
        CloseSession,
        ExecOpen ''tank-0'' ''warnet''
          [''tar'', ''-czf'', ''/tmp/bitcoin_data.tar.gz'', ''-C'', ''/root/.bitcoin/regtest'',
           ''peers.dat''] None False False,
        CloseSession,
        Popen ''kubectl cp warnet/tank-0:/tmp/bitcoin_data.tar.gz tank-0_bitcoin_data.tar.gz'',
        Stdout (''error: unexpected EOF'' @ nl)],
       Inl (Exception (''error: unexpected EOF'' @ nl)))"
    using snapshot_try_after_find [OF c d e, where local_path = "''./''"]
    by (simp add: ar)
  show ?thesis
    unfolding snapshot_unfold a
    by (simp add: io_bind_pair try_except_pair py_print_def act_def st fc)
qed

section \<open>\<^verbatim>\<open>snapshot_bitcoin_datadir\<close>: the result\<close>

text \<open>
  Claim C10, as amended. An error of the namespace lookup or of the client construction,
  both before the \<^verbatim>\<open>try\<close>, is raised to the caller. Once they have succeeded the
  function returns \<open>None\<close> whatever happens: every exception raised inside the
  \<^verbatim>\<open>try\<close> is caught by the one handler, which prints
  \<^verbatim>\<open>An error occurred: ...\<close> and nothing else, so the returned value is the same for a
  successful export and for a failed one.
\<close>

theorem snapshot_result:
  "snd (snapshot_bitcoin_datadir w pod_name chain local_path filters namespace) =
     (case snd (open_client w namespace) of
        Inl e \<Rightarrow> Inl e
      | Inr ns \<Rightarrow> Inr ()) \<and>
   (\<forall>ns msg. snd (open_client w namespace) = Inr ns \<and>
      snd (snapshot_try w pod_name chain local_path filters ns) = Inl (Exception msg) \<longrightarrow>
        fst (snapshot_bitcoin_datadir w pod_name chain local_path filters namespace) =
          fst (open_client w namespace) @
          fst (snapshot_try w pod_name chain local_path filters ns) @
          [Stdout (''An error occurred: '' @ msg @ nl)])"
  by (simp add: snapshot_returns snapshot_trace)

text \<open>
  The amended claim at a pod that does not exist.
\<close>

theorem snapshot_result_witness:
  "snd (snapshot_bitcoin_datadir pod_missing ''tank-0'' ''regtest'' ''./'' None (Some ''warnet''))
     = Inr () \<and>
   fst (snapshot_bitcoin_datadir pod_missing ''tank-0'' ''regtest'' ''./'' None (Some ''warnet''))
     = [LoadKubeConfig, ReadPod ''tank-0'' ''warnet'',
        Stdout (''An error occurred: (404) Reason: Not Found'' @ nl)]"
proof -
  have a: "open_client pod_missing (Some ''warnet'') = ([LoadKubeConfig], Inr ''warnet'')"
    by (simp add: open_client_def get_default_namespace_or_def get_static_client_def
        pod_missing_def calm_def io_pairs)
  have b: "snapshot_try pod_missing ''tank-0'' ''regtest'' ''./'' None ''warnet''
             = ([ReadPod ''tank-0'' ''warnet''], Inl (Exception ''(404) Reason: Not Found''))"
    by (simp add: snapshot_try_def read_pod_def pod_missing_def calm_def io_pairs)
  from snapshot_result [of pod_missing "''tank-0''" "''regtest''" "''./''" None "Some ''warnet''"]
    a b
  show ?thesis by simp
qed

text \<open>
  Claim C10 as stated fails: without \<^verbatim>\<open>kubectl\<close> and without a namespace argument the
  namespace lookup ends the call with \<^verbatim>\<open>SystemExit(1)\<close>, which is raised before the
  \<^verbatim>\<open>try\<close> is entered.
\<close>

theorem snapshot_exit_counterexample:
  "snd (snapshot_bitcoin_datadir no_kubectl ''tank-0'' ''regtest'' ''./'' None None)
     = Inl (SystemExit 1)"
  by (simp add: snapshot_bitcoin_datadir_def get_default_namespace_or_def
      get_default_namespace_def run_command_def no_kubectl_def calm_def io_pairs io_simps
      try_except_pair)

section \<open>Relative paths are never absolute\<close>

lemma py_split_no_sep: "x \<in> set (py_split sep s) \<Longrightarrow> sep \<notin> set x"
  by (induction s arbitrary: x) (auto split: if_splits list.splits)

lemma path_comps_plain:
  "x \<in> set (path_comps w path) \<Longrightarrow> x \<noteq> [] \<and> CHR ''/'' \<notin> set x"
  by (auto simp: path_comps_def dest: py_split_no_sep)

lemma rel_list_plain:
  assumes "x \<in> set (rel_list w path start)"
  shows "x \<noteq> [] \<and> CHR ''/'' \<notin> set x"
proof -
  from assms have "x = ''..'' \<or> x \<in> set (path_comps w path)"
    by (auto simp: rel_list_def Let_def dest: in_set_dropD)
  then show ?thesis using path_comps_plain by auto
qed

lemma path_join2_head:
  assumes "acc \<noteq> []" and "hd acc \<noteq> CHR ''/''" and "b = [] \<or> hd b \<noteq> CHR ''/''"
  shows "path_join2 acc b \<noteq> [] \<and> hd (path_join2 acc b) \<noteq> CHR ''/''"
  using assms by (cases b) (auto simp: path_join2_def)

lemma path_join_head:
  assumes "acc \<noteq> []" and "hd acc \<noteq> CHR ''/''"
    and "\<forall>x \<in> set rs. x = [] \<or> hd x \<noteq> CHR ''/''"
  shows "path_join acc rs \<noteq> [] \<and> hd (path_join acc rs) \<noteq> CHR ''/''"
  using assms unfolding path_join_def
proof (induction rs arbitrary: acc)
  case Nil
  then show ?case by simp
next
  case (Cons r rs)
  from path_join2_head [of acc r] Cons.prems
  have "path_join2 acc r \<noteq> [] \<and> hd (path_join2 acc r) \<noteq> CHR ''/''" by simp
  with Cons.IH [of "path_join2 acc r"] Cons.prems show ?case by simp
qed

lemma relpath_of_not_abs: "\<not> isabs (relpath_of w path start)"
proof (cases "rel_list w path start")
  case Nil
  then show ?thesis by (simp add: relpath_of_def isabs_def)
next
  case (Cons r rs)
  have plain: "\<forall>x \<in> set (r # rs). x \<noteq> [] \<and> CHR ''/'' \<notin> set x"
  proof
    fix x assume "x \<in> set (r # rs)"
    then have "x \<in> set (rel_list w path start)" by (simp add: Cons)
    then show "x \<noteq> [] \<and> CHR ''/'' \<notin> set x" by (rule rel_list_plain)
  qed
  then have "r \<noteq> []" and "hd r \<noteq> CHR ''/''"
    by (auto, metis hd_in_set)
  moreover from plain have "\<forall>x \<in> set rs. x = [] \<or> hd x \<noteq> CHR ''/''"
    by (metis hd_in_set list.set_intros(2))
  ultimately have "path_join r rs \<noteq> [] \<and> hd (path_join r rs) \<noteq> CHR ''/''"
    by (rule path_join_head)
  then show ?thesis
    using Cons by (cases "path_join r rs") (auto simp: relpath_of_def isabs_def)
qed

lemma rel_list_below:
  assumes "path_comps w path = path_comps w start @ rest"
  shows "rel_list w path start = rest"
proof -
  have "longest_common_prefix xs (xs @ rest) = xs" for xs :: "string list"
    by (induction xs) simp_all
  then show ?thesis by (simp add: rel_list_def Let_def assms)
qed


text \<open>
  Claim C9. The \<^verbatim>\<open>tar\<close> command is \<^verbatim>\<open>tar -czf /tmp/bitcoin_data.tar.gz -C\<close>
  followed by the base directory \<^verbatim>\<open>/root/.bitcoin/{chain}\<close> and, for each entry of the
  file list that is not blank, in order, the result of \<^verbatim>\<open>os.path.relpath\<close> of that entry
  against the base directory; \<^verbatim>\<open>relpath\<close> does not raise on them, and none of these
  arguments is an absolute path. For an entry that lies below the base directory the
  argument is made of the path components that follow those of the base directory.
\<close>

theorem tar_paths_relative:
  "(\<exists>paths.
      tar_command w chain file_list =
        ([], Inr ([''tar'', ''-czf'', ''/tmp/bitcoin_data.tar.gz'', ''-C'', ''/root/.bitcoin/'' @ chain]
                  @ paths)) \<and>
      list_all2 (\<lambda>f p. relpath w f (''/root/.bitcoin/'' @ chain) = Inr p \<and> \<not> isabs p)
        (filter (\<lambda>f. py_strip f \<noteq> []) file_list) paths) \<and>
   (\<forall>f r rest.
      f \<noteq> [] \<and> path_comps w f = path_comps w (''/root/.bitcoin/'' @ chain) @ r # rest \<longrightarrow>
        relpath w f (''/root/.bitcoin/'' @ chain) = Inr (path_join r rest))"
proof
  let ?paths = "map (\<lambda>f. relpath_of w f (base_dir chain)) (filter (\<lambda>f. py_strip f \<noteq> []) file_list)"
  have "list_all2 (\<lambda>f p. relpath w f (''/root/.bitcoin/'' @ chain) = Inr p \<and> \<not> isabs p)
       (filter (\<lambda>f. py_strip f \<noteq> []) file_list) ?paths"
    by (auto simp: list_all2_map2 list_all2_same relpath_def relpath_of_not_abs base_dir_def)
  moreover have "tar_command w chain file_list =
       ([], Inr ([''tar'', ''-czf'', ''/tmp/bitcoin_data.tar.gz'', ''-C'', ''/root/.bitcoin/'' @ chain]
                 @ ?paths))"
    by (simp add: tar_command_eq base_dir_def)
  ultimately show "\<exists>paths.
      tar_command w chain file_list =
        ([], Inr ([''tar'', ''-czf'', ''/tmp/bitcoin_data.tar.gz'', ''-C'', ''/root/.bitcoin/'' @ chain]
                  @ paths)) \<and>
      list_all2 (\<lambda>f p. relpath w f (''/root/.bitcoin/'' @ chain) = Inr p \<and> \<not> isabs p)
        (filter (\<lambda>f. py_strip f \<noteq> []) file_list) paths" by blast
  show "\<forall>f r rest.
      f \<noteq> [] \<and> path_comps w f = path_comps w (''/root/.bitcoin/'' @ chain) @ r # rest \<longrightarrow>
        relpath w f (''/root/.bitcoin/'' @ chain) = Inr (path_join r rest)"
    by (simp add: relpath_def relpath_of_def rel_list_below)
qed

text \<open>
  The claim at a file list with a path two levels below the base directory, an entry that
  is a single no-break space, a path through \<^verbatim>\<open>..\<close>, and a relative path, which
  \<^verbatim>\<open>relpath\<close> resolves against the working directory \<^verbatim>\<open>/home/user\<close>.
\<close>

theorem tar_paths_relative_witness:
  "tar_command calm ''regtest''
     [''/root/.bitcoin/regtest/blocks/blk00000.dat'', [CHR 0xA0],
      ''/root/.bitcoin/regtest/blocks/../peers.dat'', ''wallets'']
   = ([], Inr [''tar'', ''-czf'', ''/tmp/bitcoin_data.tar.gz'', ''-C'', ''/root/.bitcoin/regtest'',
               ''blocks/blk00000.dat'', ''peers.dat'', ''../../../home/user/wallets'']) \<and>
   relpath calm ''/root/.bitcoin/regtest/blocks/index/'' ''/root/.bitcoin/regtest''
   = Inr ''blocks/index''"
proof -
  let ?fl = "[''/root/.bitcoin/regtest/blocks/blk00000.dat'', [CHR 0xA0],
              ''/root/.bitcoin/regtest/blocks/../peers.dat'', ''wallets'']"
  note t = tar_paths_relative [of calm "''regtest''" ?fl]
  from t obtain paths where
    a: "tar_command calm ''regtest'' ?fl =
          ([], Inr ([''tar'', ''-czf'', ''/tmp/bitcoin_data.tar.gz'', ''-C'',
                     ''/root/.bitcoin/'' @ ''regtest''] @ paths))"
    and b: "list_all2 (\<lambda>f p. relpath calm f (''/root/.bitcoin/'' @ ''regtest'') = Inr p \<and> \<not> isabs p)
              (filter (\<lambda>f. py_strip f \<noteq> []) ?fl) paths"
    by blast
  have c: "filter (\<lambda>f. py_strip f \<noteq> []) ?fl
             = [''/root/.bitcoin/regtest/blocks/blk00000.dat'',
                ''/root/.bitcoin/regtest/blocks/../peers.dat'', ''wallets'']"
    by (simp add: py_strip_def py_isspace_def)
  have d: "relpath calm ''/root/.bitcoin/regtest/blocks/blk00000.dat'' ''/root/.bitcoin/regtest''
             = Inr ''blocks/blk00000.dat''"
    by (simp add: path_defs)
  have e: "relpath calm ''/root/.bitcoin/regtest/blocks/../peers.dat'' ''/root/.bitcoin/regtest''
             = Inr ''peers.dat''"
    by (simp add: path_defs)
  have g: "relpath calm ''wallets'' ''/root/.bitcoin/regtest''
             = Inr ''../../../home/user/wallets''"
    by (simp add: path_defs calm_def)
  from b have "paths = [''blocks/blk00000.dat'', ''peers.dat'', ''../../../home/user/wallets'']"
    unfolding c by (auto simp: list_all2_Cons1 d e g)
  with a have 1: "tar_command calm ''regtest'' ?fl
     = ([], Inr [''tar'', ''-czf'', ''/tmp/bitcoin_data.tar.gz'', ''-C'', ''/root/.bitcoin/regtest'',
               ''blocks/blk00000.dat'', ''peers.dat'', ''../../../home/user/wallets''])" by simp
  have f: "path_comps calm ''/root/.bitcoin/regtest/blocks/index/''
             = path_comps calm (''/root/.bitcoin/'' @ ''regtest'') @ ''blocks'' # [''index'']"
    by (simp add: path_defs)
  from t f have "relpath calm ''/root/.bitcoin/regtest/blocks/index/''
                   (''/root/.bitcoin/'' @ ''regtest'') = Inr (path_join ''blocks'' [''index''])"
    by blast
  then have 2: "relpath calm ''/root/.bitcoin/regtest/blocks/index/'' ''/root/.bitcoin/regtest''
                  = Inr ''blocks/index''"
    by (simp add: path_join_def path_join2_def suffix_to_prefix)
  from 1 2 show ?thesis by simp
qed

text \<open>
  The first poll loop strips the whole chunk before splitting it, as the source does: a
  no-break space and the newline at the end of the output go, so that the last path is
  collected without them.
\<close>

lemma collect_file_list_strips_chunk:
  "collect_file_list
     [PollData (''/root/.bitcoin/regtest/peers.dat'' @ nl @
                ''/root/.bitcoin/regtest/wallet'' @ [CHR 0xA0] @ nl) []] []
   = ([], Inr [''/root/.bitcoin/regtest/peers.dat'', ''/root/.bitcoin/regtest/wallet''])"
  by (simp add: io_pairs py_strip_def py_isspace_def nl_def)

section \<open>What the \<^verbatim>\<open>find\<close> command selects\<close>

lemma eval_or_names:
  "length rest + 3 \<le> n \<Longrightarrow>
   eval_or n m e (''-name'' # f0 # concat (map (\<lambda>f. [''-o'', ''-name'', f]) rest) @ '')'' # tail)
     = Some (\<exists>p \<in> set (f0 # rest). m p (entry_name e), '')'' # tail)"
proof (induction rest arbitrary: n f0)
  case Nil
  then have "n = Suc (Suc (Suc (n - 3)))" by simp
  then obtain k where "n = Suc (Suc (Suc k))" ..
  then show ?case by simp
next
  case (Cons f rest)
  then have "n = Suc (Suc (Suc (n - 3)))" and "length rest + 3 \<le> Suc (Suc (n - 3))"
    by simp_all
  then obtain k where n: "n = Suc (Suc (Suc k))" and k: "length rest + 3 \<le> Suc (Suc k)"
    by blast
  from Cons.IH [OF k, of f] show ?case
    by (simp add: n)
qed

lemma eval_and_type_then_or:
  assumes "2 \<le> n"
  shows "eval_and n m e (''-type'' # c # ''-o'' # r) = Some (c = [entry_type e], ''-o'' # r)"
proof -
  from assms have "n = Suc (Suc (n - 2))" by simp
  then obtain k where "n = Suc (Suc k)" ..
  then show ?thesis by simp
qed

lemma eval_or_type_then_close:
  assumes "3 \<le> n"
  shows "eval_or n m e (''-type'' # c # '')'' # r) = Some (c = [entry_type e], '')'' # r)"
proof -
  from assms have "n = Suc (Suc (Suc (n - 3)))" by simp
  then obtain k where "n = Suc (Suc (Suc k))" ..
  then show ?thesis by simp
qed

lemma find_expr_filters:
  "find_expr (find_command chain (Some (f0 # rest))) =
     [''('', ''-type'', ''f'', ''-o'', ''-type'', ''d'', '')'', ''('']
     @ ''-name'' # f0 # concat (map (\<lambda>f. [''-o'', ''-name'', f]) rest) @ ['')'']"
  by (simp add: find_expr_def find_command_eq is_expr_start_def base_dir_def)

lemma find_starts_base:
  "find_starts (find_command chain filters) = [''/root/.bitcoin/'' @ chain]"
  by (simp add: find_starts_def find_command_eq is_expr_start_def base_dir_def
      split: option.splits list.splits)

lemma find_selects_filters:
  "find_selects m (find_command chain (Some (f0 # rest))) e =
     ((entry_type e = CHR ''f'' \<or> entry_type e = CHR ''d'') \<and>
      (\<exists>p \<in> set (f0 # rest). m p (entry_name e)))"
proof -
  let ?names = "''-name'' # f0 # concat (map (\<lambda>f. [''-o'', ''-name'', f]) rest)"
  let ?ts = "[''('', ''-type'', ''f'', ''-o'', ''-type'', ''d'', '')'', ''(''] @ ?names @ ['')'']"
  let ?n = "3 * length ?ts + 3"
  have len: "length rest + 3 \<le> ?n - 4" by (simp add: length_concat o_def sum_list_triv)
  have n: "?n = Suc (Suc (Suc (Suc (?n - 4))))" by simp
  obtain j where j: "?n = Suc (Suc (Suc (Suc j)))" and lj: "length rest + 3 \<le> j"
    using n len by blast
  have names: "eval_or j m e
                 (''-name'' # f0 # concat (map (\<lambda>f. [''-o'', ''-name'', f]) rest) @ ['')'']) =
          Some (\<exists>p \<in> set (f0 # rest). m p (entry_name e), ['')''])"
    using eval_or_names [of rest j m e f0 "[]"] lj by simp
  have l1: "eval_and j m e (''-type'' # c # ''-o'' # r) = Some (c = [entry_type e], ''-o'' # r)"
    for c r using lj by (intro eval_and_type_then_or) simp
  have l2: "eval_or j m e (''-type'' # c # '')'' # r) = Some (c = [entry_type e], '')'' # r)"
    for c r using lj by (intro eval_or_type_then_close) simp
  have "eval_or ?n m e ?ts =
          Some (([CHR ''f''] = [entry_type e] \<or> [CHR ''d''] = [entry_type e]) \<and>
                (\<exists>p \<in> set (f0 # rest). m p (entry_name e)), [])"
    unfolding j by (simp add: l1 l2 names)
  then show ?thesis
    unfolding find_selects_def find_expr_filters by auto
qed


text \<open>
  Claim C7, as amended. The only starting point of the command is the base directory
  \<^verbatim>\<open>/root/.bitcoin/{chain}\<close>. With no filters (\<open>None\<close> or the empty list) the
  command has no expression and selects every entry below it. With a non-empty filter
  list it selects exactly the entries that are a regular file or a directory and whose
  name matches at least one of the patterns: the patterns are joined by \<^verbatim>\<open>-o\<close>, and the
  group is joined to \<^verbatim>\<open>( -type f -o -type d )\<close> by juxtaposition, which is a
  conjunction.
\<close>

theorem find_command_selects:
  "find_starts (find_command chain filters) = [''/root/.bitcoin/'' @ chain] \<and>
   find_selects m (find_command chain filters) e =
     (if filters = None \<or> filters = Some []
      then True
      else (entry_type e = CHR ''f'' \<or> entry_type e = CHR ''d'') \<and>
           (\<exists>p \<in> set (the filters). m p (entry_name e)))"
proof (cases "filters = None \<or> filters = Some []")
  case True
  then have "find_selects m (find_command chain filters) e"
    by (auto simp: find_selects_def find_expr_def find_command_eq is_expr_start_def base_dir_def)
  with True show ?thesis by (simp add: find_starts_base)
next
  case False
  then obtain f0 rest where "filters = Some (f0 # rest)"
    by (cases filters) (auto simp: neq_Nil_conv)
  then show ?thesis
    using find_selects_filters [of m chain f0 rest e] by (simp add: find_starts_base)
qed

text \<open>
  The amended claim at a regular file matched by the second of two patterns, and at
  a command without filters.
\<close>

theorem find_command_selects_witness:
  "find_selects (=) (find_command ''regtest'' (Some [''*.dat'', ''peers.dat''])) peers_file \<and>
   find_selects (=) (find_command ''regtest'' None) peers_link"
  using find_command_selects [of "''regtest''" "Some [''*.dat'', ''peers.dat'']" "(=)" peers_file]
    find_command_selects [of "''regtest''" None "(=)" peers_link]
  by (simp add: peers_file_def)

text \<open>
  Claim C7 as stated fails for an entry that is neither a regular file nor a directory:
  a symbolic link whose name matches the pattern is not selected.
\<close>

theorem find_command_symlink_counterexample:
  "entry_name peers_link = ''peers.dat'' \<and>
   \<not> find_selects (=) (find_command ''regtest'' (Some [''peers.dat''])) peers_link"
  by (simp add: find_selects_def find_expr_def find_command_def is_expr_start_def base_dir_def
      peers_link_def eval_nat_numeral)

end
